theory Spec2Isabelle
  imports Complex_Main
begin

section \<open>Vectors and matrices\<close>

text \<open>
  The drivers compute with Eigen vectors and matrices of \<open>double\<close>. A vector is a list of
  scalars and a matrix the list of its rows. Scalars are real numbers: the theorems below
  are about how the drivers wire their blocks together and drive their loops, and the
  inputs at which a statement is refuted are integers and halves, on which the double
  arithmetic of the drivers is exact.
\<close>

type_synonym vec = "real list"
type_synonym mat = "real list list"

definition setZero :: "nat \<Rightarrow> vec" where
  "setZero n = replicate n 0"

definition head :: "nat \<Rightarrow> vec \<Rightarrow> vec" where
  "head n v = take n v"

definition tail :: "nat \<Rightarrow> vec \<Rightarrow> vec" where
  "tail n v = drop (length v - n) v"

definition segment :: "nat \<Rightarrow> nat \<Rightarrow> vec \<Rightarrow> vec" where
  "segment i n v = take n (drop i v)"

text \<open>\<open>v.head(n) = h\<close>: the first \<open>n\<close> entries are replaced (Eigen requires \<open>h\<close> to have size \<open>n\<close>).\<close>

definition assign_head :: "nat \<Rightarrow> vec \<Rightarrow> vec \<Rightarrow> vec" where
  "assign_head n v h = take n h @ drop n v"

text \<open>\<open>v.tail(n).setZero()\<close>: the last \<open>n\<close> entries become zero.\<close>

definition setZero_tail :: "nat \<Rightarrow> vec \<Rightarrow> vec" where
  "setZero_tail n v = take (length v - n) v @ replicate n 0"

definition vadd :: "vec \<Rightarrow> vec \<Rightarrow> vec" where
  "vadd a b = map2 (+) a b"

definition vsub :: "vec \<Rightarrow> vec \<Rightarrow> vec" where
  "vsub a b = map2 (-) a b"

definition smul :: "real \<Rightarrow> vec \<Rightarrow> vec" where
  "smul k a = map ((*) k) a"

definition dot :: "vec \<Rightarrow> vec \<Rightarrow> real" where
  "dot a b = sum_list (map2 (*) a b)"

definition vnorm :: "vec \<Rightarrow> real" where
  "vnorm a = sqrt (dot a a)"

definition mat_vec :: "mat \<Rightarrow> vec \<Rightarrow> vec" where
  "mat_vec M v = map (\<lambda>row. dot row v) M"

definition mscale :: "real \<Rightarrow> mat \<Rightarrow> mat" where
  "mscale k M = map (map ((*) k)) M"

text \<open>The square matrix with the given diagonal (\<open>M.diagonal() << ...\<close> on a zero matrix).\<close>

fun asDiagonal :: "vec \<Rightarrow> mat" where
  "asDiagonal [] = []"
| "asDiagonal (d # ds) = (d # replicate (length ds) 0) # map ((#) 0) (asDiagonal ds)"

definition Identity :: "nat \<Rightarrow> mat" where
  "Identity n = asDiagonal (replicate n 1)"

section \<open>Spaces and the feedback block of the control library\<close>

text \<open>
  The point types \<open>spatial::R<N>\<close>, \<open>spatial::SO<3>\<close> and \<open>spatial::SE<3>\<close> and the
  controller \<open>controllers::Feedback\<close> belong to the control library the drivers include;
  only their uses are in the drivers. A point carries its coordinates and a tangent
  vector \<open>_v\<close>. The constructors that take coordinates leave \<open>_v\<close> unassigned: the
  content of that field is the explicit argument \<open>uninit\<close> of the constructor below, so
  that every theorem holds whatever the field happens to contain.
\<close>

record R =
  r_x :: vec
  r_v :: vec

record SO3 =
  so3_rot :: mat
  so3_v :: vec

record SE3 =
  se3_trans :: vec
  se3_rot :: mat
  se3_v :: vec

definition R3 :: "vec \<Rightarrow> vec \<Rightarrow> R" where
  "R3 uninit x = \<lparr>r_x = x, r_v = uninit\<rparr>"

definition R7 :: "vec \<Rightarrow> vec \<Rightarrow> R" where
  "R7 uninit x = \<lparr>r_x = x, r_v = uninit\<rparr>"

definition SO3_of :: "vec \<Rightarrow> mat \<Rightarrow> SO3" where
  "SO3_of uninit r = \<lparr>so3_rot = r, so3_v = uninit\<rparr>"

definition SE3_of :: "vec \<Rightarrow> mat \<Rightarrow> vec \<Rightarrow> SE3" where
  "SE3_of uninit r t = \<lparr>se3_trans = t, se3_rot = r, se3_v = uninit\<rparr>"

record 'x Feedback =
  fb_stiffness :: mat
  fb_damping :: mat
  fb_reference :: 'x

definition setStiffness :: "mat \<Rightarrow> 'x Feedback \<Rightarrow> 'x Feedback" where
  "setStiffness K fb = fb\<lparr>fb_stiffness := K\<rparr>"

definition setDamping :: "mat \<Rightarrow> 'x Feedback \<Rightarrow> 'x Feedback" where
  "setDamping D fb = fb\<lparr>fb_damping := D\<rparr>"

definition setReference :: "'x \<Rightarrow> 'x Feedback \<Rightarrow> 'x Feedback" where
  "setReference x fb = fb\<lparr>fb_reference := x\<rparr>"

text \<open>
  Modelled from the spec: the law of the library's \<open>Feedback\<close> block (not under src/), a
  proportional-derivative law \<open>K (x* - x) + D (x*.v - x.v)\<close> with stiffness \<open>K\<close> and
  damping \<open>D\<close>, in the sign convention of the operation-space controller's torque.
\<close>

definition Feedback_R :: "R Feedback \<Rightarrow> R \<Rightarrow> vec" where
  "Feedback_R fb x =
     vadd (mat_vec (fb_stiffness fb) (vsub (r_x (fb_reference fb)) (r_x x)))
          (mat_vec (fb_damping fb) (vsub (r_v (fb_reference fb)) (r_v x)))"

text \<open>
  Modelled from the spec: the SE(3) error of the library (not under src/), the translation
  difference followed by the rotation log. The log map itself is the parameter \<open>rot_log\<close>.
\<close>

definition SE3_minus :: "(mat \<Rightarrow> mat \<Rightarrow> vec) \<Rightarrow> SE3 \<Rightarrow> SE3 \<Rightarrow> vec" where
  "SE3_minus rot_log a b =
     vsub (se3_trans a) (se3_trans b) @ rot_log (se3_rot a) (se3_rot b)"

definition Feedback_SE3 :: "(mat \<Rightarrow> mat \<Rightarrow> vec) \<Rightarrow> SE3 Feedback \<Rightarrow> SE3 \<Rightarrow> vec" where
  "Feedback_SE3 rot_log fb x =
     vadd (mat_vec (fb_stiffness fb) (SE3_minus rot_log (fb_reference fb) x))
          (mat_vec (fb_damping fb) (vsub (se3_v (fb_reference fb)) (se3_v x)))"

section \<open>The task-space dynamics block\<close>

text \<open>
  Each driver declares its own \<open>TaskDynamics\<close>; the three are told apart by a suffix:
  \<open>_os\<close> for \<open>sim_os.cpp\<close>, \<open>_mb\<close> for \<open>simulation/id_modelbased.cpp\<close> and \<open>_mf\<close> for
  \<open>tmp/id_modelfree.cpp\<close>. The state is the output \<open>_u\<close>, the two feedback blocks, the
  external flag and the requester's address. The constructors start from the library's
  default-constructed feedback blocks, which are parameters here.
\<close>

record TaskDynamics =
  td_u :: vec
  td_pos :: "R Feedback"
  td_rot :: "SO3 Feedback"
  td_external :: bool
  td_requester :: "string \<times> string"

definition TaskDynamics_os :: "R Feedback \<Rightarrow> SO3 Feedback \<Rightarrow> TaskDynamics" where
  "TaskDynamics_os pos0 rot0 =
     \<lparr>td_u = setZero 6,
      td_pos = setStiffness (mscale 5 (Identity 3)) pos0,
      td_rot = setStiffness (mscale 1 (Identity 3)) rot0,
      td_external = False,
      td_requester = (''localhost'', ''5511'')\<rparr>"

definition TaskDynamics_mb :: "R Feedback \<Rightarrow> SO3 Feedback \<Rightarrow> TaskDynamics" where
  "TaskDynamics_mb pos0 rot0 =
     (let k = 0; d = 2 * sqrt k in
      \<lparr>td_u = setZero 6,
       td_pos = setDamping (mscale d (Identity 3)) (setStiffness (mscale k (Identity 3)) pos0),
       td_rot = setDamping (mscale (1 / 10) (Identity 3)) (setStiffness (mscale 2 (Identity 3)) rot0),
       td_external = False,
       td_requester = (''localhost'', ''5511'')\<rparr>)"

definition TaskDynamics_mf :: "R Feedback \<Rightarrow> SO3 Feedback \<Rightarrow> TaskDynamics" where
  "TaskDynamics_mf pos0 rot0 =
     (let k = 5; d = 3 * sqrt k in
      \<lparr>td_u = setZero 6,
       td_pos = setDamping (mscale d (Identity 3)) (setStiffness (mscale k (Identity 3)) pos0),
       td_rot = setDamping (mscale (1 / 10) (Identity 3)) (setStiffness (mscale 2 (Identity 3)) rot0),
       td_external = False,
       td_requester = (''localhost'', ''5511'')\<rparr>)"

definition setExternal :: "bool \<Rightarrow> TaskDynamics \<Rightarrow> TaskDynamics" where
  "setExternal val td = td\<lparr>td_external := val\<rparr>"

definition external :: "TaskDynamics \<Rightarrow> bool" where
  "external td = td_external td"

definition TaskDynamics_setReference_os :: "vec \<Rightarrow> SE3 \<Rightarrow> TaskDynamics \<Rightarrow> TaskDynamics" where
  "TaskDynamics_setReference_os uninit x td =
     td\<lparr>td_pos := setReference (R3 uninit (se3_trans x)) (td_pos td),
        td_rot := setReference (SO3_of uninit (se3_rot x)) (td_rot td)\<rparr>"

definition TaskDynamics_setReference_mb :: "SE3 \<Rightarrow> TaskDynamics \<Rightarrow> TaskDynamics" where
  "TaskDynamics_setReference_mb x td =
     (let p = \<lparr>r_x = se3_trans x, r_v = head 3 (se3_v x)\<rparr>;
          r = \<lparr>so3_rot = se3_rot x, so3_v = tail 3 (se3_v x)\<rparr>
      in td\<lparr>td_pos := setReference p (td_pos td), td_rot := setReference r (td_rot td)\<rparr>)"

definition TaskDynamics_setReference_mf :: "vec \<Rightarrow> SE3 \<Rightarrow> TaskDynamics \<Rightarrow> TaskDynamics" where
  "TaskDynamics_setReference_mf uninit x td =
     td\<lparr>td_pos := setReference (R3 uninit (se3_trans x)) (td_pos td),
        td_rot := setReference (SO3_of uninit (se3_rot x)) (td_rot td)\<rparr>"

text \<open>
  \<open>update\<close>. The argument \<open>request\<close> is the remote client: \<open>request t\<close> is the reply to
  a request carrying \<open>t\<close>, asked for with size 3. It is consulted only when the external
  flag is set. In \<open>sim_os.cpp\<close> the position feedback is called on the temporary
  \<open>R3(x._trans)\<close>, whose tangent is not assigned; the two inverse-dynamics drivers copy
  \<open>x._v.head(3)\<close> into it first.
\<close>

definition TaskDynamics_update_os :: "(vec \<Rightarrow> vec) \<Rightarrow> vec \<Rightarrow> TaskDynamics \<Rightarrow> SE3 \<Rightarrow> TaskDynamics" where
  "TaskDynamics_update_os request uninit td x =
     (let u1 = assign_head 3 (td_u td)
                 (if td_external td then request (se3_trans x)
                  else Feedback_R (td_pos td) (R3 uninit (se3_trans x)))
      in td\<lparr>td_u := setZero_tail 3 u1\<rparr>)"

definition TaskDynamics_update_mb :: "(vec \<Rightarrow> vec) \<Rightarrow> vec \<Rightarrow> TaskDynamics \<Rightarrow> SE3 \<Rightarrow> TaskDynamics" where
  "TaskDynamics_update_mb request uninit td x =
     (let p = (R3 uninit (se3_trans x))\<lparr>r_v := head 3 (se3_v x)\<rparr>;
          u1 = assign_head 3 (td_u td)
                 (if td_external td then request (se3_trans x) else Feedback_R (td_pos td) p)
      in td\<lparr>td_u := setZero_tail 3 u1\<rparr>)"

definition TaskDynamics_update_mf :: "(vec \<Rightarrow> vec) \<Rightarrow> vec \<Rightarrow> TaskDynamics \<Rightarrow> SE3 \<Rightarrow> TaskDynamics" where
  "TaskDynamics_update_mf request uninit td x =
     (let p = (R3 uninit (se3_trans x))\<lparr>r_v := head 3 (se3_v x)\<rparr>;
          u1 = assign_head 3 (td_u td)
                 (if td_external td then request (se3_trans x) else Feedback_R (td_pos td) p)
      in td\<lparr>td_u := setZero_tail 3 u1\<rparr>)"

section \<open>Configuration values\<close>

text \<open>
  A YAML document as the drivers use it: scalars, sequences and maps. \<open>node[key]\<close> of a
  map without the key is an undefined node, and converting a node that is not a sequence
  of scalars to \<open>std::vector<double>\<close> throws; the exception is not caught, so it ends
  the process before the simulation starts.
\<close>

datatype yaml = YNull | YScalar real | YSeq "yaml list" | YMap "(string \<times> yaml) list"

datatype error = BadFile | BadConversion

fun yaml_index :: "yaml \<Rightarrow> string \<Rightarrow> yaml" where
  "yaml_index (YMap kvs) key = (case map_of kvs key of Some v \<Rightarrow> v | None \<Rightarrow> YNull)"
| "yaml_index YNull key = YNull"
| "yaml_index (YScalar r) key = YNull"
| "yaml_index (YSeq ys) key = YNull"

fun scalars :: "yaml list \<Rightarrow> vec option" where
  "scalars [] = Some []"
| "scalars (YScalar r # ys) = map_option ((#) r) (scalars ys)"
| "scalars (YNull # ys) = None"
| "scalars (YSeq zs # ys) = None"
| "scalars (YMap kvs # ys) = None"

fun as_vector_double :: "yaml \<Rightarrow> error + vec" where
  "as_vector_double (YSeq ys) = (case scalars ys of Some v \<Rightarrow> Inr v | None \<Rightarrow> Inl BadConversion)"
| "as_vector_double YNull = Inl BadConversion"
| "as_vector_double (YScalar r) = Inl BadConversion"
| "as_vector_double (YMap kvs) = Inl BadConversion"

section \<open>The robot model, the solver and the environment\<close>

text \<open>
  The rigid-body model, the quadratic-program solver, the physics engine, the clock and
  the remote policy are collaborators outside the drivers. They are the fields of one
  record: the model's functions of the joint state, the rotation log of the control
  library, the solver's solution for a state, a task reference and an optional input
  reference (the joint limits are constants of the model), the library's
  default-constructed feedback blocks, the contents of the configuration and trajectory
  files, and, indexed by the number of physics steps made so far, the clock reading
  at the start of the iteration, what \<open>simulator.step\<close> returns for its argument, what
  the controller sees during that step and the frame position the loop reads after it.
  Every theorem holds for all values of these fields.
\<close>

record tick =
  tk_state :: vec
  tk_velocity :: vec
  tk_request :: "vec \<Rightarrow> vec"
  tk_uninit :: vec

record world =
  jacobian :: "vec \<Rightarrow> mat"
  framePose :: "vec \<Rightarrow> mat \<times> vec"
  frameVelocity :: "vec \<Rightarrow> vec \<Rightarrow> vec"
  nonLinearEffects :: "vec \<Rightarrow> vec \<Rightarrow> vec"
  gravityVector :: "vec \<Rightarrow> vec"
  positionLower :: vec
  positionUpper :: vec
  rot_log :: "mat \<Rightarrow> mat \<Rightarrow> vec"
  qp_solve :: "R \<Rightarrow> vec \<Rightarrow> vec option \<Rightarrow> vec"
  default_R :: "R Feedback"
  default_SO3 :: "SO3 Feedback"
  default_SE3 :: "SE3 Feedback"
  LoadFile :: "string \<Rightarrow> yaml option"
  read_csv :: "string \<Rightarrow> mat"
  clock :: "nat \<Rightarrow> int"
  simulator_step :: "nat \<Rightarrow> nat \<Rightarrow> bool"
  body :: "nat \<Rightarrow> tick"
  framePosition :: "nat \<Rightarrow> vec"

text \<open>\<open>SE3 pose(framePose(q))\<close>: the pose of the frame, its twist not yet assigned.\<close>

definition SE3_framePose :: "world \<Rightarrow> vec \<Rightarrow> vec \<Rightarrow> SE3" where
  "SE3_framePose W uninit q = SE3_of uninit (fst (framePose W q)) (snd (framePose W q))"

section \<open>The operation-space controller (sim\_os.cpp)\<close>

text \<open>
  The controller holds the reference pose, the task dynamics, the feedback block \<open>_ctr\<close>
  and the file manager's current file. The files written are a map from file names to the
  rows they hold; \<open>append\<close> adds one row at the end of the current file.
\<close>

type_synonym files = "string \<Rightarrow> vec list"

definition append :: "string \<Rightarrow> vec \<Rightarrow> files \<Rightarrow> files" where
  "append file row fs = fs(file := fs file @ [row])"

record OperationSpaceController =
  osc_ref_pose :: SE3
  osc_ds :: TaskDynamics
  osc_ctr :: "SE3 Feedback"
  osc_writer :: string

definition OperationSpaceController_init ::
  "R Feedback \<Rightarrow> SO3 Feedback \<Rightarrow> SE3 Feedback \<Rightarrow> vec \<Rightarrow> SE3 \<Rightarrow> OperationSpaceController" where
  "OperationSpaceController_init pos0 rot0 ctr0 uninit ref_pose =
     \<lparr>osc_ref_pose = ref_pose,
      osc_ds = TaskDynamics_setReference_os uninit ref_pose (TaskDynamics_os pos0 rot0),
      osc_ctr = setDamping (asDiagonal [20, 20, 20, 1, 1, 1]) ctr0,
      osc_writer = ''demo_os_0.csv''\<rparr>"

definition OperationSpaceController_action ::
  "world \<Rightarrow> tick \<Rightarrow> OperationSpaceController \<times> files \<Rightarrow> vec \<times> OperationSpaceController \<times> files" where
  "OperationSpaceController_action W tk cf =
     (let c = fst cf; fs = snd cf;
          q = tk_state tk; dq = tk_velocity tk;
          curr_pose = SE3_framePose W (tk_uninit tk) q;
          fs1 = (if external (osc_ds c) then append (osc_writer c) (se3_trans curr_pose) fs else fs);
          ds1 = (if vnorm (vsub (se3_trans curr_pose) (se3_trans (osc_ref_pose c))) \<le> 5 / 100
                    \<and> \<not> external (osc_ds c)
                 then setExternal True (osc_ds c) else osc_ds c);
          jac = jacobian W q;
          curr_pose1 = curr_pose\<lparr>se3_v := mat_vec jac dq\<rparr>;
          ds2 = TaskDynamics_update_os (tk_request tk) (tk_uninit tk) ds1 curr_pose1;
          ref_pose1 = (osc_ref_pose c)\<lparr>se3_v := td_u ds2\<rparr>;
          ctr1 = setReference ref_pose1 (osc_ctr c);
          tau = mat_vec (transpose jac) (Feedback_SE3 (rot_log W) ctr1 curr_pose1)
      in (tau, c\<lparr>osc_ref_pose := ref_pose1, osc_ds := ds2, osc_ctr := ctr1\<rparr>, fs1))"

text \<open>A run of the controller: one call of \<open>action\<close> per tick, in order.\<close>

fun OperationSpaceController_run ::
  "world \<Rightarrow> tick list \<Rightarrow> OperationSpaceController \<times> files \<Rightarrow> OperationSpaceController \<times> files" where
  "OperationSpaceController_run W [] cf = cf"
| "OperationSpaceController_run W (tk # tks) cf =
     OperationSpaceController_run W tks (snd (OperationSpaceController_action W tk cf))"

text \<open>The tick is within the goal radius of the reference translation \<open>ref\<close>.\<close>

definition within_os :: "world \<Rightarrow> vec \<Rightarrow> tick \<Rightarrow> bool" where
  "within_os W ref tk =
     (vnorm (vsub (se3_trans (SE3_framePose W (tk_uninit tk) (tk_state tk))) ref) \<le> 5 / 100)"

text \<open>The file name the specification gives the log of the demo with identifier \<open>ident\<close>.\<close>

definition spec_log_file :: "string \<Rightarrow> string" where
  "spec_log_file ident = ''demo_os_'' @ ident @ ''.csv''"

section \<open>The inverse-dynamics controllers\<close>

text \<open>
  \<open>IKController\<close> of \<open>simulation/id_modelbased.cpp\<close> has \<open>nP = 7\<close>, \<open>nC = 7\<close>, \<open>nS = 6\<close>;
  \<open>IDController\<close> of \<open>tmp/id_modelfree.cpp\<close> has \<open>nP = 7\<close>, \<open>nC = 0\<close>, \<open>nS = 6\<close>. The
  quadratic program is built and solved by the control library: \<open>qp_solve W state u ref\<close>
  is the solution returned by \<open>_id(state)\<close> when the task block's output is \<open>u\<close> and the
  input reference is \<open>ref\<close> (absent in the model-free driver). \<open>_config.update(state)\<close>
  recomputes the output of the configuration feedback, which nothing reads; it changes
  none of the fields kept here.
\<close>

text \<open>The sizes of \<open>ParamsConfig::quadratic_control\<close> in the two drivers.\<close>

definition nP :: nat where
  "nP = 7"

definition nC_mb :: nat where
  "nC_mb = 7"

definition nC_mf :: nat where
  "nC_mf = 0"

definition nS :: nat where
  "nS = 6"

record IKController =
  ik_dt :: real
  ik_frame :: string
  ik_gravity :: vec
  ik_config :: "R Feedback"
  ik_task :: TaskDynamics

definition IKController_init ::
  "world \<Rightarrow> R Feedback \<Rightarrow> SO3 Feedback \<Rightarrow> R Feedback \<Rightarrow> tick \<Rightarrow> SE3 \<Rightarrow> IKController" where
  "IKController_init W pos0 rot0 config0 tk target_pose =
     (let state = (R7 (tk_uninit tk) (tk_state tk))\<lparr>r_v := tk_velocity tk\<rparr>;
          target_state =
            (R7 (tk_uninit tk)
               (vadd (smul (1 / 2) (vsub (positionUpper W) (positionLower W))) (positionLower W)))
              \<lparr>r_v := setZero 7\<rparr>;
          config = setReference target_state
                     (setDamping (mscale (1 / 10) (Identity 7))
                        (setStiffness (mscale 2 (Identity 7)) config0));
          pose = (SE3_framePose W (tk_uninit tk) (r_x state))
                   \<lparr>se3_v := frameVelocity W (r_x state) (r_v state)\<rparr>
      in \<lparr>ik_dt = 1 / 100,
          ik_frame = ''panda_joint_8'',
          ik_gravity = gravityVector W (r_x state),
          ik_config = config,
          ik_task = TaskDynamics_update_mb (tk_request tk) (tk_uninit tk)
                      (TaskDynamics_setReference_mb target_pose (TaskDynamics_mb pos0 rot0)) pose\<rparr>)"

definition IKController_setExternalDynamics :: "bool \<Rightarrow> IKController \<Rightarrow> IKController" where
  "IKController_setExternalDynamics val c = c\<lparr>ik_task := setExternal val (ik_task c)\<rparr>"

definition IKController_action :: "world \<Rightarrow> tick \<Rightarrow> IKController \<Rightarrow> vec \<times> IKController" where
  "IKController_action W tk c =
     (let state = (R7 (tk_uninit tk) (tk_state tk))\<lparr>r_v := tk_velocity tk\<rparr>;
          gravity = nonLinearEffects W (r_x state) (r_v state);
          pose = (SE3_framePose W (tk_uninit tk) (r_x state))
                   \<lparr>se3_v := frameVelocity W (r_x state) (r_v state)\<rparr>;
          task = TaskDynamics_update_mb (tk_request tk) (tk_uninit tk) (ik_task c) pose;
          sol = qp_solve W state (td_u task) (Some gravity)
      in (segment 7 7 sol, c\<lparr>ik_gravity := gravity, ik_task := task\<rparr>))"

record IDController =
  id_dt :: real
  id_frame :: string
  id_config :: "R Feedback"
  id_task :: TaskDynamics
  id_ctr :: "R Feedback"

definition IDController_init ::
  "world \<Rightarrow> R Feedback \<Rightarrow> SO3 Feedback \<Rightarrow> R Feedback \<Rightarrow> R Feedback \<Rightarrow> tick \<Rightarrow> SE3 \<Rightarrow> IDController" where
  "IDController_init W pos0 rot0 config0 ctr0 tk target_pose =
     (let state = (R7 (tk_uninit tk) (tk_state tk))\<lparr>r_v := tk_velocity tk\<rparr>;
          target_state =
            (R7 (tk_uninit tk)
               (vadd (smul (1 / 2) (vsub (positionUpper W) (positionLower W))) (positionLower W)))
              \<lparr>r_v := setZero 7\<rparr>;
          config = setReference target_state
                     (setDamping (mscale (1 / 10) (Identity 7))
                        (setStiffness (mscale 1 (Identity 7)) config0));
          pose = (SE3_framePose W (tk_uninit tk) (r_x state))
                   \<lparr>se3_v := frameVelocity W (r_x state) (r_v state)\<rparr>
      in \<lparr>id_dt = 1 / 100,
          id_frame = ''panda_joint_8'',
          id_config = config,
          id_task = TaskDynamics_update_mf (tk_request tk) (tk_uninit tk)
                      (TaskDynamics_setReference_mf (tk_uninit tk) target_pose
                         (TaskDynamics_mf pos0 rot0)) pose,
          id_ctr = setDamping (asDiagonal [10, 10, 10, 10, 10, 10, 1])
                     (setStiffness (asDiagonal [950, 950, 950, 950, 500, 500, 50]) ctr0)\<rparr>)"

definition IDController_action :: "world \<Rightarrow> tick \<Rightarrow> IDController \<Rightarrow> vec \<times> IDController" where
  "IDController_action W tk c =
     (let state = (R7 (tk_uninit tk) (tk_state tk))\<lparr>r_v := tk_velocity tk\<rparr>;
          pose = (SE3_framePose W (tk_uninit tk) (r_x state))
                   \<lparr>se3_v := frameVelocity W (r_x state) (r_v state)\<rparr>;
          task = TaskDynamics_update_mf (tk_request tk) (tk_uninit tk) (id_task c) pose;
          sol = qp_solve W state (td_u task) None;
          ref = (R7 (tk_uninit tk)
                   (vadd (vadd (r_x state) (smul (id_dt c) (r_v state)))
                         (smul (1 / 2 * id_dt c * id_dt c) (segment 0 7 sol))))
                  \<lparr>r_v := setZero 7\<rparr>;
          ctr = setReference ref (id_ctr c)
      in (vadd (Feedback_R ctr state) (gravityVector W (r_x state)),
          c\<lparr>id_task := task, id_ctr := ctr\<rparr>))"

section \<open>The simulation loops\<close>

text \<open>
  The loop variables of \<open>main\<close> are \<open>t\<close>, \<open>prev\<close> and \<open>next\<close>; time points are counts of
  nanoseconds of the steady clock, as unbounded integers, and \<open>1ms\<close> is 1000000 of them.
  Two more fields record what the loop has done: \<open>ls_steps\<close> counts the calls of
  \<open>simulator.step\<close> that returned true, and \<open>ls_sleeps\<close> lists the deadlines passed to
  \<open>sleep_until\<close>, oldest first. The controller is evaluated inside the physics step; the
  step of the model calls \<open>action\<close> once on what the controller sees during that step.
  \<open>dt\<close> is \<open>1/1000\<close>; the horizon \<open>T\<close> is 20 in \<open>sim_os.cpp\<close> and 40 in
  \<open>simulation/id_modelbased.cpp\<close>.
\<close>

record loop_state =
  ls_t :: real
  ls_prev :: int
  ls_next :: int
  ls_steps :: nat
  ls_sleeps :: "int list"

record os_state = loop_state +
  os_controller :: OperationSpaceController
  os_files :: files

record qp_state = loop_state +
  qp_controller :: IKController
  qp_enter :: bool

datatype exit = Horizon | EngineStop | GoalBreak

text \<open>\<open>Eigen::Map<Eigen::Vector3d>(&offset[0])\<close>: the first three entries of the vector.\<close>

definition Map3 :: "vec \<Rightarrow> vec" where
  "Map3 v = take 3 v"

definition os_init :: "int \<Rightarrow> OperationSpaceController \<Rightarrow> files \<Rightarrow> os_state" where
  "os_init start c fs =
     \<lparr>ls_t = 0, ls_prev = start - 1000000, ls_next = start, ls_steps = 0, ls_sleeps = [],
      os_controller = c, os_files = fs\<rparr>"

definition qp_init :: "int \<Rightarrow> IKController \<Rightarrow> qp_state" where
  "qp_init start c =
     \<lparr>ls_t = 0, ls_prev = start - 1000000, ls_next = start, ls_steps = 0, ls_sleeps = [],
      qp_controller = c, qp_enter = True\<rparr>"

text \<open>One pass through the body of the \<open>while\<close>: \<open>Inl\<close> when it leaves by \<open>break\<close>.\<close>

definition os_iteration :: "world \<Rightarrow> vec \<Rightarrow> os_state \<Rightarrow> (exit \<times> os_state) + os_state" where
  "os_iteration W offset s =
     (let k = ls_steps s;
          now = clock W k;
          r = OperationSpaceController_action W (body W k) (os_controller s, os_files s);
          s1 = s\<lparr>os_controller := fst (snd r), os_files := snd (snd r)\<rparr>
      in if \<not> simulator_step W k (nat \<lfloor>ls_t s / (1 / 1000)\<rfloor>) then Inl (EngineStop, s1)
         else
           (let s2 = s1\<lparr>ls_t := ls_t s + 1 / 1000, ls_steps := k + 1\<rparr>
            in if vnorm (vsub (framePosition W k) (Map3 offset)) \<le> 5 / 100
               then Inl (GoalBreak, s2)
               else Inr (s2\<lparr>ls_prev := now, ls_next := ls_next s + 1000000,
                             ls_sleeps := ls_sleeps s @ [ls_next s + 1000000]\<rparr>)))"

function os_loop :: "world \<Rightarrow> vec \<Rightarrow> os_state \<Rightarrow> exit \<times> os_state" where
  "os_loop W offset s =
     (if ls_t s \<le> 20
      then (case os_iteration W offset s of Inl r \<Rightarrow> r | Inr s' \<Rightarrow> os_loop W offset s')
      else (Horizon, s))"
  by pat_completeness auto
termination
proof (relation "measure (\<lambda>(W, offset, s). nat (\<lfloor>(20 - ls_t s) * 1000\<rfloor> + 1))")
  show "wf (measure (\<lambda>(W, offset, s). nat (\<lfloor>(20 - ls_t s) * 1000\<rfloor> + 1)))"
    by simp
next
  fix W :: world and offset :: vec and s s' :: os_state
  assume le: "ls_t s \<le> 20" and it: "os_iteration W offset s = Inr s'"
  from it have t': "ls_t s' = ls_t s + 1 / 1000"
    by (auto simp: os_iteration_def Let_def split: if_splits)
  have eq: "(20 - ls_t s') * 1000 = (20 - ls_t s) * 1000 - 1"
    by (simp add: t' algebra_simps)
  have fl: "\<lfloor>(20 - ls_t s') * 1000\<rfloor> = \<lfloor>(20 - ls_t s) * 1000\<rfloor> - 1"
    by (simp only: eq floor_diff_one)
  from le have "0 \<le> \<lfloor>(20 - ls_t s) * 1000\<rfloor>"
    by simp
  with fl show "((W, offset, s'), (W, offset, s))
      \<in> measure (\<lambda>(W, offset, s). nat (\<lfloor>(20 - ls_t s) * 1000\<rfloor> + 1))"
    by simp
qed

declare os_loop.simps [simp del]

definition qp_iteration :: "world \<Rightarrow> vec \<Rightarrow> qp_state \<Rightarrow> (exit \<times> qp_state) + qp_state" where
  "qp_iteration W xDes s =
     (let k = ls_steps s;
          now = clock W k;
          s1 = s\<lparr>qp_controller := snd (IKController_action W (body W k) (qp_controller s))\<rparr>
      in if \<not> simulator_step W k (nat \<lfloor>ls_t s / (1 / 1000)\<rfloor>) then Inl (EngineStop, s1)
         else
           (let s2 = s1\<lparr>ls_t := ls_t s + 1 / 1000, ls_steps := k + 1\<rparr>;
                s3 = (if vnorm (vsub xDes (framePosition W k)) \<le> 1 / 100 \<and> qp_enter s2
                      then s2\<lparr>qp_controller :=
                                 IKController_setExternalDynamics True (qp_controller s2),
                               qp_enter := False\<rparr>
                      else s2)
            in Inr (s3\<lparr>ls_prev := now, ls_next := ls_next s + 1000000,
                        ls_sleeps := ls_sleeps s @ [ls_next s + 1000000]\<rparr>)))"

function qp_loop :: "world \<Rightarrow> vec \<Rightarrow> qp_state \<Rightarrow> exit \<times> qp_state" where
  "qp_loop W xDes s =
     (if ls_t s \<le> 40
      then (case qp_iteration W xDes s of Inl r \<Rightarrow> r | Inr s' \<Rightarrow> qp_loop W xDes s')
      else (Horizon, s))"
  by pat_completeness auto
termination
proof (relation "measure (\<lambda>(W, xDes, s). nat (\<lfloor>(40 - ls_t s) * 1000\<rfloor> + 1))")
  show "wf (measure (\<lambda>(W, xDes, s). nat (\<lfloor>(40 - ls_t s) * 1000\<rfloor> + 1)))"
    by simp
next
  fix W :: world and xDes :: vec and s s' :: qp_state
  assume le: "ls_t s \<le> 40" and it: "qp_iteration W xDes s = Inr s'"
  from it have t': "ls_t s' = ls_t s + 1 / 1000"
    by (auto simp: qp_iteration_def Let_def split: if_splits)
  have eq: "(40 - ls_t s') * 1000 = (40 - ls_t s) * 1000 - 1"
    by (simp add: t' algebra_simps)
  have fl: "\<lfloor>(40 - ls_t s') * 1000\<rfloor> = \<lfloor>(40 - ls_t s) * 1000\<rfloor> - 1"
    by (simp only: eq floor_diff_one)
  from le have "0 \<le> \<lfloor>(40 - ls_t s) * 1000\<rfloor>"
    by simp
  with fl show "((W, xDes, s'), (W, xDes, s))
      \<in> measure (\<lambda>(W, xDes, s). nat (\<lfloor>(40 - ls_t s) * 1000\<rfloor> + 1))"
    by simp
qed

declare qp_loop.simps [simp del]

text \<open>
  The number of calls of \<open>simulator.step\<close>, and so of \<open>action\<close>, a run of the loop of
  \<open>sim_os.cpp\<close> from \<open>os_init\<close> has made when it ends: the calls that returned true
  and, when the loop ended on it, the one that returned false.
\<close>

definition os_calls :: "exit \<times> os_state \<Rightarrow> nat" where
  "os_calls res = ls_steps (snd res) + (if fst res = EngineStop then 1 else 0)"

text \<open>The frame read after step \<open>k\<close> is within the goal radius of \<open>xDes\<close>.\<close>

definition within_qp :: "world \<Rightarrow> vec \<Rightarrow> nat \<Rightarrow> bool" where
  "within_qp W xDes k = (vnorm (vsub xDes (framePosition W k)) \<le> 1 / 100)"

section \<open>The set-up of \<open>main\<close>\<close>

text \<open>
  Before its loop, \<open>main\<close> picks the demo from the command line, reads the offset from
  the demo's \<open>dynamics_params.yaml\<close>, loads the trajectory files, adds the offset to every
  row, hands each trajectory to the viewer and builds the controller for the first row of
  the first trajectory. \<open>sim_os.cpp\<close> loads trajectories 1 to 7, the inverse-dynamics
  drivers trajectory 1 only.
\<close>

definition demo :: "string list \<Rightarrow> string" where
  "demo argv = (if length argv > 1 then ''demo_'' @ argv ! 1 else ''demo_1'')"

definition dynamics_params :: "string \<Rightarrow> string" where
  "dynamics_params d = ''rsc/demos/'' @ d @ ''/dynamics_params.yaml''"

definition load_offset_os :: "world \<Rightarrow> string \<Rightarrow> error + vec" where
  "load_offset_os W d =
     (case LoadFile W (dynamics_params d) of
        None \<Rightarrow> Inl BadFile
      | Some config \<Rightarrow> as_vector_double (yaml_index config ''offset''))"

definition load_offset_mb :: "world \<Rightarrow> string \<Rightarrow> error + vec" where
  "load_offset_mb W d =
     (case LoadFile W (dynamics_params d) of
        None \<Rightarrow> Inl BadFile
      | Some config \<Rightarrow> as_vector_double (yaml_index (yaml_index config ''dynamics'') ''offset''))"

definition load_offset_mf :: "world \<Rightarrow> string \<Rightarrow> error + vec" where
  "load_offset_mf W d =
     (case LoadFile W (dynamics_params d) of
        None \<Rightarrow> Inl BadFile
      | Some config \<Rightarrow> as_vector_double (yaml_index (yaml_index config ''dynamics'') ''offset''))"

text \<open>\<open>std::to_string\<close>: the decimal digits of the number.\<close>

fun to_string :: "nat \<Rightarrow> string" where
  "to_string n =
     (if n < 10 then [char_of (48 + n)] else to_string (n div 10) @ [char_of (48 + n mod 10)])"

definition trajectory_file :: "string \<Rightarrow> nat \<Rightarrow> string" where
  "trajectory_file d i = ''rsc/demos/'' @ d @ ''/trajectory_'' @ to_string i @ ''.csv''"

text \<open>\<open>trajectory.rowwise() += offset\<close>, the offset mapped as a 3-vector.\<close>

definition rowwise_add :: "vec \<Rightarrow> mat \<Rightarrow> mat" where
  "rowwise_add offset traj = map (\<lambda>row. vadd row (Map3 offset)) traj"

definition trajectories_os :: "world \<Rightarrow> string \<Rightarrow> vec \<Rightarrow> mat list" where
  "trajectories_os W d offset =
     map (\<lambda>i. rowwise_add offset (read_csv W (trajectory_file d i))) [1..<8]"

definition trajectories_mb :: "world \<Rightarrow> string \<Rightarrow> vec \<Rightarrow> mat list" where
  "trajectories_mb W d offset =
     map (\<lambda>i. rowwise_add offset (read_csv W (trajectory_file d i))) [1..<2]"

definition trajectories_mf :: "world \<Rightarrow> string \<Rightarrow> vec \<Rightarrow> mat list" where
  "trajectories_mf W d offset =
     map (\<lambda>i. rowwise_add offset (read_csv W (trajectory_file d i))) [1..<2]"

definition ref_rot :: mat where
  "ref_rot = [[768647 / 1000000, 239631 / 1000000, 593092 / 1000000],
              [948479 / 10000000, - (959627 / 1000000), 264802 / 1000000],
              [632602 / 1000000, - (147286 / 1000000), - (760343 / 1000000)]]"

text \<open>
  \<open>main\<close> of \<open>sim_os.cpp\<close>: the result is the error that ended the set-up, or how the loop
  ended and the state it ended in. \<open>start\<close> is the clock reading taken before the loop,
  \<open>fs\<close> the files present, \<open>uninit\<close> the content of the reference pose's unassigned twist.
\<close>

definition main_os_controller :: "world \<Rightarrow> vec \<Rightarrow> string list \<Rightarrow> vec \<Rightarrow> OperationSpaceController" where
  "main_os_controller W uninit argv offset =
     (let trajectories = trajectories_os W (demo argv) offset;
          ref_pos = hd (hd trajectories);
          ref_pose = SE3_of uninit ref_rot ref_pos
      in OperationSpaceController_init (default_R W) (default_SO3 W) (default_SE3 W) uninit ref_pose)"

definition main_os :: "world \<Rightarrow> vec \<Rightarrow> int \<Rightarrow> files \<Rightarrow> string list \<Rightarrow> error + exit \<times> os_state" where
  "main_os W uninit start fs argv =
     (case load_offset_os W (demo argv) of
        Inl e \<Rightarrow> Inl e
      | Inr offset \<Rightarrow>
          Inr (os_loop W offset (os_init start (main_os_controller W uninit argv offset) fs)))"

text \<open>
  \<open>main\<close> of \<open>simulation/id_modelbased.cpp\<close>. The controller is built on the body state
  at construction, \<open>tk0\<close>; the target twist is set to zero.
\<close>

definition main_mb_xDes :: "world \<Rightarrow> string list \<Rightarrow> vec \<Rightarrow> vec" where
  "main_mb_xDes W argv offset = hd (hd (trajectories_mb W (demo argv) offset))"

definition main_mb_controller :: "world \<Rightarrow> tick \<Rightarrow> string list \<Rightarrow> vec \<Rightarrow> IKController" where
  "main_mb_controller W tk0 argv offset =
     (let xDes = main_mb_xDes W argv offset;
          tDes = (SE3_of (tk_uninit tk0) ref_rot xDes)\<lparr>se3_v := setZero 6\<rparr>
      in IKController_init W (default_R W) (default_SO3 W) (default_R W) tk0 tDes)"

definition main_mb :: "world \<Rightarrow> tick \<Rightarrow> int \<Rightarrow> string list \<Rightarrow> error + exit \<times> qp_state" where
  "main_mb W tk0 start argv =
     (case load_offset_mb W (demo argv) of
        Inl e \<Rightarrow> Inl e
      | Inr offset \<Rightarrow>
          Inr (qp_loop W (main_mb_xDes W argv offset)
                 (qp_init start (main_mb_controller W tk0 argv offset))))"

section \<open>Concrete inputs\<close>

text \<open>
  The inputs at which the theorems are instantiated below. The feedback blocks start with
  zero gains of their dimension, except the damped block below. The example robot has a Jacobian whose only non-zero
  entry is the first of its first row, and its frame sits at the first three joint
  coordinates.
\<close>

definition zero_gains :: "nat \<Rightarrow> 'x \<Rightarrow> 'x Feedback" where
  "zero_gains d x =
     \<lparr>fb_stiffness = replicate d (replicate d 0), fb_damping = replicate d (replicate d 0),
      fb_reference = x\<rparr>"

definition ex_ref_pose :: SE3 where
  "ex_ref_pose = \<lparr>se3_trans = [1, 0, 0], se3_rot = ref_rot, se3_v = [0, 0, 0, 0, 0, 0]\<rparr>"



definition ex_request :: "vec \<Rightarrow> vec" where
  "ex_request t = [1 / 2, 0, 0]"

definition ex_tick :: "vec \<Rightarrow> tick" where
  "ex_tick q =
     \<lparr>tk_state = q, tk_velocity = [0, 0, 0, 0, 0, 0, 0], tk_request = ex_request, tk_uninit = []\<rparr>"

definition ex_config :: yaml where
  "ex_config =
     YMap [(''offset'', YSeq [YScalar (1 / 2), YScalar 0, YScalar 0]),
           (''dynamics'', YMap [(''offset'', YSeq [YScalar (1 / 2), YScalar 0, YScalar 0])])]"

definition ex_world :: world where
  "ex_world =
     \<lparr>jacobian = (\<lambda>q. [[1, 0, 0, 0, 0, 0, 0], [0, 0, 0, 0, 0, 0, 0], [0, 0, 0, 0, 0, 0, 0],
                        [0, 0, 0, 0, 0, 0, 0], [0, 0, 0, 0, 0, 0, 0], [0, 0, 0, 0, 0, 0, 0]]),
      framePose = (\<lambda>q. (ref_rot, take 3 q)),
      frameVelocity = (\<lambda>q dq. [0, 0, 0, 0, 0, 0]),
      nonLinearEffects = (\<lambda>q dq. [0, 0, 0, 0, 0, 0, 0]),
      gravityVector = (\<lambda>q. [1, 1, 1, 1, 1, 1, 1]),
      positionLower = [- 1, - 1, - 1, - 1, - 1, - 1, - 1],
      positionUpper = [1, 1, 1, 1, 1, 1, 1],
      rot_log = (\<lambda>a b. [0, 0, 0]),
      qp_solve = (\<lambda>state u ref. [1, 2, 3, 4, 5, 6, 7, 8, 9, 10, 11, 12, 13, 14, 15, 16, 17, 18, 19, 20]),
      default_R = zero_gains 3 (R3 [] []),
      default_SO3 = zero_gains 3 (SO3_of [] []),
      default_SE3 = zero_gains 6 (SE3_of [] [] []),
      LoadFile = (\<lambda>p. if p = dynamics_params ''demo_1'' then Some ex_config else None),
      read_csv = (\<lambda>p. [[1, 0, 0], [0, 0, 0]]),
      clock = (\<lambda>k. 5 + 1000000 * int k),
      simulator_step = (\<lambda>k arg. k < 2),
      body = (\<lambda>k. ex_tick [1 / 2, 0, 0, 0, 0, 0, 0]),
      framePosition = (\<lambda>k. [3 / 2, 0, 0])\<rparr>"

definition ex_world_at_offset :: world where
  "ex_world_at_offset = ex_world\<lparr>framePosition := (\<lambda>k. [1 / 2, 0, 0])\<rparr>"

definition ex_files :: files where
  "ex_files file = []"

definition ex_controller :: OperationSpaceController where
  "ex_controller =
     OperationSpaceController_init (zero_gains 3 (R3 [] [])) (zero_gains 3 (SO3_of [] []))
       (zero_gains 6 (SE3_of [] [] [])) [] ex_ref_pose"

definition ex_ik_controller :: IKController where
  "ex_ik_controller =
     IKController_init ex_world (zero_gains 3 (R3 [] [])) (zero_gains 3 (SO3_of [] []))
       (zero_gains 7 (R7 [] [])) (ex_tick [0, 0, 0, 0, 0, 0, 0]) ex_ref_pose"

definition ex_config_dynamics_only :: yaml where
  "ex_config_dynamics_only =
     YMap [(''dynamics'', YMap [(''offset'', YSeq [YScalar (1 / 2), YScalar 0, YScalar 0])])]"

definition ex_world_dynamics_only :: world where
  "ex_world_dynamics_only =
     ex_world\<lparr>LoadFile :=
       (\<lambda>p. if p = dynamics_params ''demo_1'' then Some ex_config_dynamics_only else None)\<rparr>"

definition ex_world_mf :: world where
  "ex_world_mf = ex_world\<lparr>qp_solve := (\<lambda>state u ref. [1, 2, 3, 4, 5, 6, 7, 8, 9, 10, 11, 12, 13])\<rparr>"

definition ex_id_controller :: IDController where
  "ex_id_controller =
     IDController_init ex_world_mf (zero_gains 3 (R3 [] [])) (zero_gains 3 (SO3_of [] []))
       (zero_gains 7 (R7 [] [])) (zero_gains 7 (R7 [] [])) (ex_tick [0, 0, 0, 0, 0, 0, 0])
       ex_ref_pose"

section \<open>Basic facts\<close>

lemma tail_setZero_tail: "tail n (setZero_tail n v) = replicate n 0"
  by (simp add: tail_def setZero_tail_def)

lemma length_setZero_tail: "n \<le> length v \<Longrightarrow> length (setZero_tail n v) = length v"
  by (simp add: setZero_tail_def)

lemma length_assign_head:
  "n \<le> length h \<Longrightarrow> n \<le> length v \<Longrightarrow> length (assign_head n v h) = length v"
  by (simp add: assign_head_def)


lemma length_update:
  "3 \<le> length h \<Longrightarrow> length v = 6 \<Longrightarrow> length (setZero_tail 3 (assign_head 3 v h)) = 6"
  by (simp add: setZero_tail_def assign_head_def)

lemma dot_zero_row: "list_all (\<lambda>e. e = 0) row \<Longrightarrow> dot row v = 0"
proof (induction row arbitrary: v)
  case Nil
  then show ?case by (simp add: dot_def)
next
  case (Cons a row)
  then show ?case by (cases v) (simp_all add: dot_def)
qed

section \<open>The output of the task-space dynamics\<close>

text \<open>
  C10. In each of the three drivers, whatever the state of the block, the pose, the
  external flag and the remote reply, the last three entries of the output are zero after
  \<open>update\<close>, and the rotation feedback block has no influence on the output: replacing
  it by any other block leaves the output unchanged.
\<close>

theorem TaskDynamics_angular_zero:
  "tail 3 (td_u (TaskDynamics_update_os request uninit td x)) = [0, 0, 0]
   \<and> tail 3 (td_u (TaskDynamics_update_mb request uninit td x)) = [0, 0, 0]
   \<and> tail 3 (td_u (TaskDynamics_update_mf request uninit td x)) = [0, 0, 0]
   \<and> td_u (TaskDynamics_update_os request uninit (td\<lparr>td_rot := rot\<rparr>) x)
       = td_u (TaskDynamics_update_os request uninit td x)
   \<and> td_u (TaskDynamics_update_mb request uninit (td\<lparr>td_rot := rot\<rparr>) x)
       = td_u (TaskDynamics_update_mb request uninit td x)
   \<and> td_u (TaskDynamics_update_mf request uninit (td\<lparr>td_rot := rot\<rparr>) x)
       = td_u (TaskDynamics_update_mf request uninit td x)"
  by (simp add: TaskDynamics_update_os_def TaskDynamics_update_mb_def
      TaskDynamics_update_mf_def Let_def tail_setZero_tail numeral_3_eq_3)

lemma length_Feedback_R:
  "length (fb_stiffness fb) = n \<Longrightarrow> length (fb_damping fb) = n \<Longrightarrow> length (Feedback_R fb p) = n"
  by (simp add: Feedback_R_def vadd_def mat_vec_def)

section \<open>The linear part of the task-space dynamics\<close>


lemma mscale_Identity_3: "mscale k (Identity 3) = [[k, 0, 0], [0, k, 0], [0, 0, k]]"
  by (simp add: Identity_def mscale_def numeral_3_eq_3)

lemma replicate_3: "replicate 3 a = [a, a, a]"
  by (simp add: eval_nat_numeral)

lemma replicate_6: "replicate 6 a = [a, a, a, a, a, a]"
  by (simp add: eval_nat_numeral)

lemma replicate_7: "replicate 7 a = [a, a, a, a, a, a, a]"
  by (simp add: eval_nat_numeral)






section \<open>Facts about the operation-space controller\<close>

lemma update_external:
  "td_external (TaskDynamics_update_os request uninit td x) = td_external td"
  "td_external (TaskDynamics_update_mb request uninit td x) = td_external td"
  "td_external (TaskDynamics_update_mf request uninit td x) = td_external td"
  by (simp_all add: TaskDynamics_update_os_def TaskDynamics_update_mb_def
      TaskDynamics_update_mf_def Let_def)

lemma action_external:
  "external (osc_ds (fst (snd (OperationSpaceController_action W tk (c, fs)))))
     = (external (osc_ds c) \<or> within_os W (se3_trans (osc_ref_pose c)) tk)"
  by (auto simp: OperationSpaceController_action_def Let_def external_def update_external
      setExternal_def within_os_def)

lemma action_ref_trans:
  "se3_trans (osc_ref_pose (fst (snd (OperationSpaceController_action W tk (c, fs)))))
     = se3_trans (osc_ref_pose c)"
  by (simp add: OperationSpaceController_action_def Let_def)

lemma action_writer:
  "osc_writer (fst (snd (OperationSpaceController_action W tk (c, fs)))) = osc_writer c"
  by (simp add: OperationSpaceController_action_def Let_def)

lemma action_files:
  "snd (snd (OperationSpaceController_action W tk (c, fs)))
     = (if external (osc_ds c)
        then append (osc_writer c) (se3_trans (SE3_framePose W (tk_uninit tk) (tk_state tk))) fs
        else fs)"
  by (simp add: OperationSpaceController_action_def Let_def)

lemma run_external:
  "external (osc_ds (fst (OperationSpaceController_run W tks (c, fs))))
     = (external (osc_ds c) \<or> (\<exists>tk \<in> set tks. within_os W (se3_trans (osc_ref_pose c)) tk))"
proof (induction tks arbitrary: c fs)
  case Nil
  then show ?case by simp
next
  case (Cons tk tks)
  obtain tau c' fs' where a: "OperationSpaceController_action W tk (c, fs) = (tau, c', fs')"
    by (cases "OperationSpaceController_action W tk (c, fs)") auto
  have e: "external (osc_ds c') = (external (osc_ds c) \<or> within_os W (se3_trans (osc_ref_pose c)) tk)"
    using action_external [of W tk c fs] a by simp
  have r: "se3_trans (osc_ref_pose c') = se3_trans (osc_ref_pose c)"
    using action_ref_trans [of W tk c fs] a by simp
  show ?case
    using Cons.IH [of c' fs'] a e r by auto
qed

lemma run_files:
  "snd (OperationSpaceController_run W tks (c, fs))
     = fs(osc_writer c := fs (osc_writer c)
          @ map (\<lambda>tk. se3_trans (SE3_framePose W (tk_uninit tk) (tk_state tk)))
              (if external (osc_ds c) then tks
               else tl (dropWhile (\<lambda>tk. \<not> within_os W (se3_trans (osc_ref_pose c)) tk) tks)))"
proof (induction tks arbitrary: c fs)
  case Nil
  show ?case by (cases "external (osc_ds c)") simp_all
next
  case (Cons tk tks)
  obtain tau c' fs' where a: "OperationSpaceController_action W tk (c, fs) = (tau, c', fs')"
    by (cases "OperationSpaceController_action W tk (c, fs)") auto
  have e: "external (osc_ds c') = (external (osc_ds c) \<or> within_os W (se3_trans (osc_ref_pose c)) tk)"
    using action_external [of W tk c fs] a by simp
  have r: "se3_trans (osc_ref_pose c') = se3_trans (osc_ref_pose c)"
    using action_ref_trans [of W tk c fs] a by simp
  have w: "osc_writer c' = osc_writer c"
    using action_writer [of W tk c fs] a by simp
  have f: "fs' = (if external (osc_ds c)
        then append (osc_writer c) (se3_trans (SE3_framePose W (tk_uninit tk) (tk_state tk))) fs
        else fs)"
    using action_files [of W tk c fs] a by simp
  show ?case
    using Cons.IH [of c' fs'] a e r w f by (auto simp: append_def)
qed

section \<open>Facts about the loops\<close>

lemma os_loop_cases [consumes 0, case_names horizon break continue]:
  assumes "\<And>s. \<not> ls_t s \<le> 20 \<Longrightarrow> os_loop W offset s = (Horizon, s) \<Longrightarrow> P s"
    and "\<And>s r s1. ls_t s \<le> 20 \<Longrightarrow> os_iteration W offset s = Inl (r, s1)
           \<Longrightarrow> os_loop W offset s = (r, s1) \<Longrightarrow> P s"
    and "\<And>s s1. ls_t s \<le> 20 \<Longrightarrow> os_iteration W offset s = Inr s1
           \<Longrightarrow> os_loop W offset s = os_loop W offset s1 \<Longrightarrow> P s1 \<Longrightarrow> P s"
  shows "P s"
  using assms
proof (induction W offset s rule: os_loop.induct)
  case (1 W offset s)
  note horizon = "1.prems"(1) and break = "1.prems"(2) and continue = "1.prems"(3)
  show ?case
  proof (cases "ls_t s \<le> 20")
    case False
    have l: "os_loop W offset s = (Horizon, s)"
      using False by (subst os_loop.simps) simp
    show ?thesis
      by (rule horizon [OF False l])
  next
    case True
    show ?thesis
    proof (cases "os_iteration W offset s")
      case (Inl p)
      obtain r s1 where p: "p = (r, s1)" by (cases p)
      have it: "os_iteration W offset s = Inl (r, s1)"
        using Inl p by simp
      have l: "os_loop W offset s = (r, s1)"
        using True it by (subst os_loop.simps) simp
      show ?thesis
        by (rule break [OF True it l])
    next
      case (Inr s1)
      have eq: "os_loop W offset s = os_loop W offset s1"
        using True Inr by (subst os_loop.simps) simp
      have "P s1"
        by (rule "1.IH" [OF True Inr horizon break continue])
      then show ?thesis
        by (rule continue [OF True Inr eq])
    qed
  qed
qed

lemma qp_loop_cases [consumes 0, case_names horizon break continue]:
  assumes "\<And>s. \<not> ls_t s \<le> 40 \<Longrightarrow> qp_loop W xDes s = (Horizon, s) \<Longrightarrow> P s"
    and "\<And>s r s1. ls_t s \<le> 40 \<Longrightarrow> qp_iteration W xDes s = Inl (r, s1)
           \<Longrightarrow> qp_loop W xDes s = (r, s1) \<Longrightarrow> P s"
    and "\<And>s s1. ls_t s \<le> 40 \<Longrightarrow> qp_iteration W xDes s = Inr s1
           \<Longrightarrow> qp_loop W xDes s = qp_loop W xDes s1 \<Longrightarrow> P s1 \<Longrightarrow> P s"
  shows "P s"
  using assms
proof (induction W xDes s rule: qp_loop.induct)
  case (1 W xDes s)
  note horizon = "1.prems"(1) and break = "1.prems"(2) and continue = "1.prems"(3)
  show ?case
  proof (cases "ls_t s \<le> 40")
    case False
    have l: "qp_loop W xDes s = (Horizon, s)"
      using False by (subst qp_loop.simps) simp
    show ?thesis
      by (rule horizon [OF False l])
  next
    case True
    show ?thesis
    proof (cases "qp_iteration W xDes s")
      case (Inl p)
      obtain r s1 where p: "p = (r, s1)" by (cases p)
      have it: "qp_iteration W xDes s = Inl (r, s1)"
        using Inl p by simp
      have l: "qp_loop W xDes s = (r, s1)"
        using True it by (subst qp_loop.simps) simp
      show ?thesis
        by (rule break [OF True it l])
    next
      case (Inr s1)
      have eq: "qp_loop W xDes s = qp_loop W xDes s1"
        using True Inr by (subst qp_loop.simps) simp
      have "P s1"
        by (rule "1.IH" [OF True Inr horizon break continue])
      then show ?thesis
        by (rule continue [OF True Inr eq])
    qed
  qed
qed

lemma os_iteration_Inr:
  assumes "os_iteration W offset s = Inr s1"
  shows "ls_t s1 = ls_t s + 1 / 1000" and "ls_steps s1 = ls_steps s + 1"
    and "ls_next s1 = ls_next s + 1000000"
    and "ls_sleeps s1 = ls_sleeps s @ [ls_next s + 1000000]"
    and "ls_prev s1 = clock W (ls_steps s)"
  using assms by (auto simp: os_iteration_def Let_def split: if_splits)

lemma os_iteration_Inl:
  assumes "os_iteration W offset s = Inl (r, s1)"
  shows "ls_next s1 = ls_next s" and "ls_sleeps s1 = ls_sleeps s"
    and "(r = EngineStop \<and> \<not> simulator_step W (ls_steps s) (nat \<lfloor>ls_t s / (1 / 1000)\<rfloor>)
           \<and> ls_t s1 = ls_t s \<and> ls_steps s1 = ls_steps s)
         \<or> (r = GoalBreak \<and> simulator_step W (ls_steps s) (nat \<lfloor>ls_t s / (1 / 1000)\<rfloor>)
           \<and> ls_t s1 = ls_t s + 1 / 1000 \<and> ls_steps s1 = ls_steps s + 1
           \<and> vnorm (vsub (framePosition W (ls_steps s)) (Map3 offset)) \<le> 5 / 100)"
  using assms by (auto simp: os_iteration_def Let_def split: if_splits)

lemma IKController_action_external:
  "td_external (ik_task (snd (IKController_action W tk c))) = td_external (ik_task c)"
  by (simp add: IKController_action_def Let_def update_external)

lemma qp_iteration_Inr:
  assumes "qp_iteration W xDes s = Inr s1"
  shows "ls_t s1 = ls_t s + 1 / 1000" and "ls_steps s1 = ls_steps s + 1"
    and "ls_next s1 = ls_next s + 1000000"
    and "ls_sleeps s1 = ls_sleeps s @ [ls_next s + 1000000]"
    and "ls_prev s1 = clock W (ls_steps s)"
    and "external (ik_task (qp_controller s1))
           = (external (ik_task (qp_controller s)) \<or> (within_qp W xDes (ls_steps s) \<and> qp_enter s))"
    and "qp_enter s1 = (qp_enter s \<and> \<not> within_qp W xDes (ls_steps s))"
  using assms
  by (auto simp: qp_iteration_def Let_def external_def within_qp_def setExternal_def
      IKController_setExternalDynamics_def IKController_action_external split: if_splits)

lemma qp_iteration_Inl:
  assumes "qp_iteration W xDes s = Inl (r, s1)"
  shows "ls_next s1 = ls_next s" and "ls_sleeps s1 = ls_sleeps s"
    and "r = EngineStop" and "\<not> simulator_step W (ls_steps s) (nat \<lfloor>ls_t s / (1 / 1000)\<rfloor>)"
    and "ls_t s1 = ls_t s" and "ls_steps s1 = ls_steps s"
    and "external (ik_task (qp_controller s1)) = external (ik_task (qp_controller s))"
    and "qp_enter s1 = qp_enter s"
  using assms
  by (auto simp: qp_iteration_def Let_def external_def IKController_action_external
      split: if_splits)

lemma deadlines_step:
  "[a + 1000000] @ map (\<lambda>i. (a + 1000000) + 1000000 * (int i + 1)) [0..<n]
     = map (\<lambda>i. a + 1000000 * (int i + 1)) [0..<Suc n]"
  by (simp add: map_upt_Suc algebra_simps del: upt_Suc)

lemma os_loop_deadlines:
  "\<exists>n. ls_sleeps (snd (os_loop W offset s))
         = ls_sleeps s @ map (\<lambda>i. ls_next s + 1000000 * (int i + 1)) [0..<n]
       \<and> ls_next (snd (os_loop W offset s)) = ls_next s + 1000000 * int n"
proof (induction s rule: os_loop_cases [where W = W and offset = offset])
  case (horizon s)
  show ?case by (rule exI [of _ 0]) (simp add: horizon(2))
next
  case (break s r s1)
  show ?case by (rule exI [of _ 0]) (simp add: break(3) os_iteration_Inl [OF break(2)])
next
  case (continue s s1)
  from continue(4) obtain n where
    n: "ls_sleeps (snd (os_loop W offset s1))
          = ls_sleeps s1 @ map (\<lambda>i. ls_next s1 + 1000000 * (int i + 1)) [0..<n]"
       "ls_next (snd (os_loop W offset s1)) = ls_next s1 + 1000000 * int n"
    by blast
  note it = os_iteration_Inr [OF continue(2)]
  have "ls_sleeps (snd (os_loop W offset s1))
      = ls_sleeps s @ ([ls_next s + 1000000]
          @ map (\<lambda>i. (ls_next s + 1000000) + 1000000 * (int i + 1)) [0..<n])"
    using n(1) it(3) it(4) by simp
  then have a: "ls_sleeps (snd (os_loop W offset s1))
      = ls_sleeps s @ map (\<lambda>i. ls_next s + 1000000 * (int i + 1)) [0..<Suc n]"
    by (simp only: deadlines_step)
  have b: "ls_next (snd (os_loop W offset s1)) = ls_next s + 1000000 * int (Suc n)"
    using n(2) it(3) by simp
  from a b show ?case unfolding continue(3) by blast
qed


lemma qp_loop_deadlines:
  "\<exists>n. ls_sleeps (snd (qp_loop W xDes s))
         = ls_sleeps s @ map (\<lambda>i. ls_next s + 1000000 * (int i + 1)) [0..<n]
       \<and> ls_next (snd (qp_loop W xDes s)) = ls_next s + 1000000 * int n"
proof (induction s rule: qp_loop_cases [where W = W and xDes = xDes])
  case (horizon s)
  show ?case by (rule exI [of _ 0]) (simp add: horizon(2))
next
  case (break s r s1)
  show ?case by (rule exI [of _ 0]) (simp add: break(3) qp_iteration_Inl [OF break(2)])
next
  case (continue s s1)
  from continue(4) obtain n where
    n: "ls_sleeps (snd (qp_loop W xDes s1))
          = ls_sleeps s1 @ map (\<lambda>i. ls_next s1 + 1000000 * (int i + 1)) [0..<n]"
       "ls_next (snd (qp_loop W xDes s1)) = ls_next s1 + 1000000 * int n"
    by blast
  note it = qp_iteration_Inr [OF continue(2)]
  have "ls_sleeps (snd (qp_loop W xDes s1))
      = ls_sleeps s @ ([ls_next s + 1000000]
          @ map (\<lambda>i. (ls_next s + 1000000) + 1000000 * (int i + 1)) [0..<n])"
    using n(1) it(3) it(4) by simp
  then have a: "ls_sleeps (snd (qp_loop W xDes s1))
      = ls_sleeps s @ map (\<lambda>i. ls_next s + 1000000 * (int i + 1)) [0..<Suc n]"
    by (simp only: deadlines_step)
  have b: "ls_next (snd (qp_loop W xDes s1)) = ls_next s + 1000000 * int (Suc n)"
    using n(2) it(3) by simp
  from a b show ?case unfolding continue(3) by blast
qed

lemma deadlines_sorted:
  "sorted_wrt (<) (a # map (\<lambda>i. a + 1000000 * (int i + 1)) [0..<n])"
proof -
  have "sorted_wrt (\<lambda>i j. a + 1000000 * (int i + 1) < a + 1000000 * (int j + 1)) [0..<n]"
    by (rule sorted_wrt_mono_rel [OF _ sorted_wrt_upt]) simp
  then have "sorted_wrt (<) (map (\<lambda>i. a + 1000000 * (int i + 1)) [0..<n])"
    by (simp add: sorted_wrt_map)
  then show ?thesis
    by auto
qed

lemma deadlines_closed_form:
  assumes "sl = [] @ map (\<lambda>i. a + 1000000 * (int i + 1)) [0..<n]"
  shows "sl = map (\<lambda>i. a + 1000000 * (int i + 1)) [0..<length sl]"
    and "sorted_wrt (<) (a # sl)"
proof -
  have n: "length sl = n"
    using assms by simp
  show "sl = map (\<lambda>i. a + 1000000 * (int i + 1)) [0..<length sl]"
    using assms unfolding n by simp
  show "sorted_wrt (<) (a # sl)"
    using deadlines_sorted [of a n] assms by simp
qed

lemma floor_steps:
  assumes "(t::real) \<le> T"
  shows "nat (\<lfloor>(T - (t + 1 / 1000)) * 1000\<rfloor> + 1) + 1 = nat (\<lfloor>(T - t) * 1000\<rfloor> + 1)"
proof -
  have eq: "(T - (t + 1 / 1000)) * 1000 = (T - t) * 1000 - 1"
    by (simp add: algebra_simps)
  have fl: "\<lfloor>(T - (t + 1 / 1000)) * 1000\<rfloor> = \<lfloor>(T - t) * 1000\<rfloor> - 1"
    by (simp only: eq floor_diff_one)
  have "0 \<le> (T - t) * 1000"
    using assms by simp
  then have "0 \<le> \<lfloor>(T - t) * 1000\<rfloor>"
    by (simp only: zero_le_floor)
  then show ?thesis
    unfolding fl by linarith
qed

lemma os_loop_exit:
  "(fst (os_loop W offset s) = Horizon \<and> 20 < ls_t (snd (os_loop W offset s)))
   \<or> (fst (os_loop W offset s) = EngineStop \<and> ls_t (snd (os_loop W offset s)) \<le> 20
       \<and> \<not> simulator_step W (ls_steps (snd (os_loop W offset s)))
             (nat \<lfloor>ls_t (snd (os_loop W offset s)) / (1 / 1000)\<rfloor>))
   \<or> (fst (os_loop W offset s) = GoalBreak \<and> 0 < ls_steps (snd (os_loop W offset s))
       \<and> vnorm (vsub (framePosition W (ls_steps (snd (os_loop W offset s)) - 1)) (Map3 offset))
           \<le> 5 / 100)"
proof (induction s rule: os_loop_cases [where W = W and offset = offset])
  case (horizon s)
  show ?case using horizon(1) by (simp add: horizon(2))
next
  case (break s r s1)
  from os_iteration_Inl(3) [OF break(2)] break(1) show ?case
    unfolding break(3) by auto
next
  case (continue s s1)
  show ?case using continue(4) by (simp add: continue(3))
qed

lemma qp_loop_exit:
  "(fst (qp_loop W xDes s) = Horizon \<and> 40 < ls_t (snd (qp_loop W xDes s)))
   \<or> (fst (qp_loop W xDes s) = EngineStop \<and> ls_t (snd (qp_loop W xDes s)) \<le> 40
       \<and> \<not> simulator_step W (ls_steps (snd (qp_loop W xDes s)))
             (nat \<lfloor>ls_t (snd (qp_loop W xDes s)) / (1 / 1000)\<rfloor>))"
proof (induction s rule: qp_loop_cases [where W = W and xDes = xDes])
  case (horizon s)
  show ?case using horizon(1) by (simp add: horizon(2))
next
  case (break s r s1)
  from qp_iteration_Inl [OF break(2)] break(1) show ?case
    unfolding break(3) by auto
next
  case (continue s s1)
  show ?case using continue(4) by (simp add: continue(3))
qed

lemma os_loop_steps:
  "ls_steps s \<le> ls_steps (snd (os_loop W offset s))
   \<and> ls_steps (snd (os_loop W offset s)) \<le> ls_steps s + nat (\<lfloor>(20 - ls_t s) * 1000\<rfloor> + 1)
   \<and> ls_t (snd (os_loop W offset s))
       = ls_t s + real (ls_steps (snd (os_loop W offset s)) - ls_steps s) / 1000"
proof (induction s rule: os_loop_cases [where W = W and offset = offset])
  case (horizon s)
  show ?case using horizon(1) by (simp add: horizon(2))
next
  case (break s r s1)
  from os_iteration_Inl(3) [OF break(2)] floor_steps [OF break(1)] show ?case
    unfolding break(3) by auto
next
  case (continue s s1)
  note it = os_iteration_Inr [OF continue(2)]
  note fl = floor_steps [OF continue(1)]
  let ?n = "ls_steps (snd (os_loop W offset s1))"
  from continue(4) have a: "ls_steps s1 \<le> ?n"
    and b: "?n \<le> ls_steps s1 + nat (\<lfloor>(20 - ls_t s1) * 1000\<rfloor> + 1)"
    and c: "ls_t (snd (os_loop W offset s1)) = ls_t s1 + real (?n - ls_steps s1) / 1000"
    by blast+
  have a': "ls_steps s \<le> ?n"
    using a it(2) by simp
  have b': "?n \<le> ls_steps s + nat (\<lfloor>(20 - ls_t s) * 1000\<rfloor> + 1)"
    using b fl unfolding it(1) it(2) by linarith
  have "real (?n - ls_steps s) = real (?n - ls_steps s1) + 1"
    using a it(2) by simp
  then have c': "ls_t (snd (os_loop W offset s1)) = ls_t s + real (?n - ls_steps s) / 1000"
    using c it(1) by (simp add: field_simps)
  from a' b' c' show ?case
    unfolding continue(3) by blast
qed

lemma qp_loop_steps:
  "ls_steps s \<le> ls_steps (snd (qp_loop W xDes s))
   \<and> ls_steps (snd (qp_loop W xDes s)) \<le> ls_steps s + nat (\<lfloor>(40 - ls_t s) * 1000\<rfloor> + 1)
   \<and> ls_t (snd (qp_loop W xDes s))
       = ls_t s + real (ls_steps (snd (qp_loop W xDes s)) - ls_steps s) / 1000"
proof (induction s rule: qp_loop_cases [where W = W and xDes = xDes])
  case (horizon s)
  show ?case using horizon(1) by (simp add: horizon(2))
next
  case (break s r s1)
  from qp_iteration_Inl [OF break(2)] show ?case
    unfolding break(3) by auto
next
  case (continue s s1)
  note it = qp_iteration_Inr [OF continue(2)]
  note fl = floor_steps [OF continue(1)]
  let ?n = "ls_steps (snd (qp_loop W xDes s1))"
  from continue(4) have a: "ls_steps s1 \<le> ?n"
    and b: "?n \<le> ls_steps s1 + nat (\<lfloor>(40 - ls_t s1) * 1000\<rfloor> + 1)"
    and c: "ls_t (snd (qp_loop W xDes s1)) = ls_t s1 + real (?n - ls_steps s1) / 1000"
    by blast+
  have a': "ls_steps s \<le> ?n"
    using a it(2) by simp
  have b': "?n \<le> ls_steps s + nat (\<lfloor>(40 - ls_t s) * 1000\<rfloor> + 1)"
    using b fl unfolding it(1) it(2) by linarith
  have "real (?n - ls_steps s) = real (?n - ls_steps s1) + 1"
    using a it(2) by simp
  then have c': "ls_t (snd (qp_loop W xDes s1)) = ls_t s + real (?n - ls_steps s) / 1000"
    using c it(1) by (simp add: field_simps)
  from a' b' c' show ?case
    unfolding continue(3) by blast
qed

lemma qp_loop_latch:
  "qp_enter s = (\<not> external (ik_task (qp_controller s))) \<longrightarrow>
   external (ik_task (qp_controller (snd (qp_loop W xDes s))))
     = (external (ik_task (qp_controller s))
        \<or> (\<exists>k. ls_steps s \<le> k \<and> k < ls_steps (snd (qp_loop W xDes s)) \<and> within_qp W xDes k))"
proof (induction s rule: qp_loop_cases [where W = W and xDes = xDes])
  case (horizon s)
  show ?case by (auto simp: horizon(2))
next
  case (break s r s1)
  from qp_iteration_Inl [OF break(2)] show ?case
    unfolding break(3) by auto
next
  case (continue s s1)
  note it = qp_iteration_Inr [OF continue(2)]
  show ?case
  proof
    assume enter: "qp_enter s = (\<not> external (ik_task (qp_controller s)))"
    have inv: "qp_enter s1 = (\<not> external (ik_task (qp_controller s1)))"
      using it(6) it(7) enter by auto
    have le: "ls_steps s1 \<le> ls_steps (snd (qp_loop W xDes s1))"
      using qp_loop_steps [of s1 W xDes] by simp
    have split: "(\<exists>k. ls_steps s \<le> k \<and> k < ls_steps (snd (qp_loop W xDes s1)) \<and> within_qp W xDes k)
        = (within_qp W xDes (ls_steps s)
           \<or> (\<exists>k. ls_steps s1 \<le> k \<and> k < ls_steps (snd (qp_loop W xDes s1)) \<and> within_qp W xDes k))"
      (is "?L = (?A \<or> ?R)")
    proof
      assume ?L
      then obtain k where k: "ls_steps s \<le> k" "k < ls_steps (snd (qp_loop W xDes s1))" "within_qp W xDes k"
        by blast
      show "?A \<or> ?R"
      proof (cases "k = ls_steps s")
        case True
        with k(3) show ?thesis by simp
      next
        case False
        with k(1) it(2) have "ls_steps s1 \<le> k" by simp
        with k(2) k(3) show ?thesis by blast
      qed
    next
      assume "?A \<or> ?R"
      then show ?L
      proof
        assume ?A
        moreover have "ls_steps s < ls_steps (snd (qp_loop W xDes s1))"
          using le it(2) by simp
        ultimately show ?L by blast
      next
        assume ?R
        then obtain k where k: "ls_steps s1 \<le> k" "k < ls_steps (snd (qp_loop W xDes s1))" "within_qp W xDes k"
          by blast
        from k(1) it(2) have "ls_steps s \<le> k" by simp
        with k(2) k(3) show ?L by blast
      qed
    qed
    from continue(4) inv have ih: "external (ik_task (qp_controller (snd (qp_loop W xDes s1))))
        = (external (ik_task (qp_controller s1)) \<or> ?R)"
      by blast
    show "external (ik_task (qp_controller (snd (qp_loop W xDes s))))
        = (external (ik_task (qp_controller s))
           \<or> (\<exists>k. ls_steps s \<le> k \<and> k < ls_steps (snd (qp_loop W xDes s)) \<and> within_qp W xDes k))"
      unfolding continue(3) split ih using it(6) enter by auto
  qed
qed

lemma qp_loop_never_cleared:
  "external (ik_task (qp_controller s)) \<longrightarrow>
   external (ik_task (qp_controller (snd (qp_loop W xDes s))))"
proof (induction s rule: qp_loop_cases [where W = W and xDes = xDes])
  case (horizon s)
  show ?case using horizon(1) by (simp add: horizon(2))
next
  case (break s r s1)
  from qp_iteration_Inl [OF break(2)] show ?case
    unfolding break(3) by auto
next
  case (continue s s1)
  note it = qp_iteration_Inr [OF continue(2)]
  from continue(4) it(6) show ?case
    unfolding continue(3) by auto
qed

lemma os_iteration_controller:
  "os_iteration W offset s = Inl (r, s1) \<or> os_iteration W offset s = Inr s1 \<Longrightarrow>
   (os_controller s1, os_files s1)
     = snd (OperationSpaceController_action W (body W (ls_steps s)) (os_controller s, os_files s))"
  by (auto simp: os_iteration_def Let_def split: if_splits)

lemma os_loop_run:
  "(os_controller (snd (os_loop W offset s)), os_files (snd (os_loop W offset s)))
     = OperationSpaceController_run W
         (map (body W) [ls_steps s..<os_calls (os_loop W offset s)])
         (os_controller s, os_files s)"
proof (induction s rule: os_loop_cases [where W = W and offset = offset])
  case (horizon s)
  show ?case by (simp add: horizon(2) os_calls_def)
next
  case (break s r s1)
  have c: "os_calls (r, s1) = Suc (ls_steps s)"
    using os_iteration_Inl(3) [OF break(2)] by (auto simp: os_calls_def)
  have "(os_controller s1, os_files s1)
     = snd (OperationSpaceController_action W (body W (ls_steps s)) (os_controller s, os_files s))"
    using os_iteration_controller [of W offset s r s1] break(2) by simp
  then show ?case
    unfolding break(3) c by (simp del: upt_Suc add: upt_conv_Cons)
next
  case (continue s s1)
  note it = os_iteration_Inr [OF continue(2)]
  have le: "ls_steps s1 \<le> os_calls (os_loop W offset s1)"
    using os_loop_steps [of s1 W offset] by (simp add: os_calls_def)
  then have lt: "ls_steps s < os_calls (os_loop W offset s1)"
    using it(2) by simp
  have a: "(os_controller s1, os_files s1)
     = snd (OperationSpaceController_action W (body W (ls_steps s)) (os_controller s, os_files s))"
    using os_iteration_controller [of W offset s _ s1] continue(2) by simp
  have "[ls_steps s..<os_calls (os_loop W offset s1)]
      = ls_steps s # [ls_steps s1..<os_calls (os_loop W offset s1)]"
    using lt it(2) by (simp add: upt_conv_Cons)
  then show ?case
    unfolding continue(3) using continue(4) a by simp
qed

section \<open>Running the loops on the concrete inputs\<close>

lemma os_loop_break:
  "ls_t s \<le> 20 \<Longrightarrow> os_iteration W offset s = Inl (r, s1) \<Longrightarrow> os_loop W offset s = (r, s1)"
  by (subst os_loop.simps) simp

lemma os_loop_continue:
  "ls_t s \<le> 20 \<Longrightarrow> os_iteration W offset s = Inr s1 \<Longrightarrow> os_loop W offset s = os_loop W offset s1"
  by (subst os_loop.simps) simp

lemma qp_loop_break:
  "ls_t s \<le> 40 \<Longrightarrow> qp_iteration W xDes s = Inl (r, s1) \<Longrightarrow> qp_loop W xDes s = (r, s1)"
  by (subst qp_loop.simps) simp

lemma qp_loop_continue:
  "ls_t s \<le> 40 \<Longrightarrow> qp_iteration W xDes s = Inr s1 \<Longrightarrow> qp_loop W xDes s = qp_loop W xDes s1"
  by (subst qp_loop.simps) simp

lemma vnorm_zero3: "vnorm [0, 0, 0] = 0"
  by (simp add: vnorm_def dot_def)

lemma vnorm_unit3: "vnorm [1, 0, 0] = 1" "vnorm [- 1, 0, 0] = 1"
  by (simp_all add: vnorm_def dot_def)

lemma ex_world_os_iteration:
  "ls_steps s < 2 \<Longrightarrow> \<exists>s1. os_iteration ex_world [1 / 2, 0, 0] s = Inr s1"
  "ls_steps s = 2 \<Longrightarrow> \<exists>s1. os_iteration ex_world [1 / 2, 0, 0] s = Inl (EngineStop, s1)"
  by (simp_all add: os_iteration_def Let_def ex_world_def Map3_def vsub_def vnorm_unit3)

lemma ex_world_qp_iteration:
  "ls_steps s < 2 \<Longrightarrow> \<exists>s1. qp_iteration ex_world xDes s = Inr s1"
  "ls_steps s = 2 \<Longrightarrow> \<exists>s1. qp_iteration ex_world xDes s = Inl (EngineStop, s1)"
  by (simp_all add: qp_iteration_def Let_def ex_world_def)

lemma ex_world_os_loop:
  assumes "ls_t s = 0" and "ls_steps s = 0"
  shows "fst (os_loop ex_world [1 / 2, 0, 0] s) = EngineStop"
    and "ls_steps (snd (os_loop ex_world [1 / 2, 0, 0] s)) = 2"
    and "ls_sleeps (snd (os_loop ex_world [1 / 2, 0, 0] s))
           = ls_sleeps s @ [ls_next s + 1000000, ls_next s + 2000000]"
proof -
  obtain s1 where i1: "os_iteration ex_world [1 / 2, 0, 0] s = Inr s1"
    using ex_world_os_iteration(1) [of s] assms by auto
  note p1 = os_iteration_Inr [OF i1]
  obtain s2 where i2: "os_iteration ex_world [1 / 2, 0, 0] s1 = Inr s2"
    using ex_world_os_iteration(1) [of s1] p1 assms by auto
  note p2 = os_iteration_Inr [OF i2]
  obtain s3 where i3: "os_iteration ex_world [1 / 2, 0, 0] s2 = Inl (EngineStop, s3)"
    using ex_world_os_iteration(2) [of s2] p1 p2 assms by auto
  note p3 = os_iteration_Inl [OF i3]
  have l: "os_loop ex_world [1 / 2, 0, 0] s = (EngineStop, s3)"
    using os_loop_continue [OF _ i1] os_loop_continue [OF _ i2] os_loop_break [OF _ i3]
      p1(1) p2(1) assms(1) by simp
  show "fst (os_loop ex_world [1 / 2, 0, 0] s) = EngineStop"
    by (simp add: l)
  show "ls_steps (snd (os_loop ex_world [1 / 2, 0, 0] s)) = 2"
    using p3(3) p2(2) p1(2) assms(2) by (simp add: l)
  show "ls_sleeps (snd (os_loop ex_world [1 / 2, 0, 0] s))
           = ls_sleeps s @ [ls_next s + 1000000, ls_next s + 2000000]"
    using p3(2) p2(3) p2(4) p1(3) p1(4) by (simp add: l)
qed

lemma ex_world_qp_loop:
  assumes "ls_t s = 0" and "ls_steps s = 0"
  shows "fst (qp_loop ex_world xDes s) = EngineStop"
    and "ls_steps (snd (qp_loop ex_world xDes s)) = 2"
    and "ls_sleeps (snd (qp_loop ex_world xDes s))
           = ls_sleeps s @ [ls_next s + 1000000, ls_next s + 2000000]"
proof -
  obtain s1 where i1: "qp_iteration ex_world xDes s = Inr s1"
    using ex_world_qp_iteration(1) [of s] assms by auto
  note p1 = qp_iteration_Inr [OF i1]
  obtain s2 where i2: "qp_iteration ex_world xDes s1 = Inr s2"
    using ex_world_qp_iteration(1) [of s1] p1 assms by auto
  note p2 = qp_iteration_Inr [OF i2]
  obtain s3 where i3: "qp_iteration ex_world xDes s2 = Inl (EngineStop, s3)"
    using ex_world_qp_iteration(2) [of s2] p1 p2 assms by auto
  note p3 = qp_iteration_Inl [OF i3]
  have l: "qp_loop ex_world xDes s = (EngineStop, s3)"
    using qp_loop_continue [OF _ i1] qp_loop_continue [OF _ i2] qp_loop_break [OF _ i3]
      p1(1) p2(1) assms(1) by simp
  show "fst (qp_loop ex_world xDes s) = EngineStop"
    by (simp add: l)
  show "ls_steps (snd (qp_loop ex_world xDes s)) = 2"
    using p3(6) p2(2) p1(2) assms(2) by (simp add: l)
  show "ls_sleeps (snd (qp_loop ex_world xDes s))
           = ls_sleeps s @ [ls_next s + 1000000, ls_next s + 2000000]"
    using p3(2) p2(3) p2(4) p1(3) p1(4) by (simp add: l)
qed

section \<open>The deadline of the loop\<close>

text \<open>
  C6. In both loops every pass that reaches the end of the body adds exactly one
  millisecond to \<open>next\<close> and then sleeps until it. Over a whole run, started with
  \<open>next\<close> at the clock reading \<open>start\<close>, the deadlines slept until are \<open>start\<close> plus
  one, two, three ... milliseconds in this order, so the values \<open>next\<close> takes are strictly
  increasing: none repeats and none is smaller than an earlier one.
\<close>

theorem next_deadline_strictly_increasing:
  "(os_iteration W offset s = Inr s1 \<longrightarrow>
      ls_next s1 = ls_next s + 1000000 \<and> ls_sleeps s1 = ls_sleeps s @ [ls_next s1])
   \<and> (qp_iteration W xDes q = Inr q1 \<longrightarrow>
      ls_next q1 = ls_next q + 1000000 \<and> ls_sleeps q1 = ls_sleeps q @ [ls_next q1])
   \<and> ls_sleeps (snd (os_loop W offset (os_init start c fs)))
       = map (\<lambda>i. start + 1000000 * (int i + 1))
           [0..<length (ls_sleeps (snd (os_loop W offset (os_init start c fs))))]
   \<and> sorted_wrt (<) (start # ls_sleeps (snd (os_loop W offset (os_init start c fs))))
   \<and> ls_sleeps (snd (qp_loop W xDes (qp_init start c')))
       = map (\<lambda>i. start + 1000000 * (int i + 1))
           [0..<length (ls_sleeps (snd (qp_loop W xDes (qp_init start c'))))]
   \<and> sorted_wrt (<) (start # ls_sleeps (snd (qp_loop W xDes (qp_init start c'))))"
proof -
  have a: "os_iteration W offset s = Inr s1 \<longrightarrow>
      ls_next s1 = ls_next s + 1000000 \<and> ls_sleeps s1 = ls_sleeps s @ [ls_next s1]"
    using os_iteration_Inr(3,4) [of W offset s s1] by simp
  have b: "qp_iteration W xDes q = Inr q1 \<longrightarrow>
      ls_next q1 = ls_next q + 1000000 \<and> ls_sleeps q1 = ls_sleeps q @ [ls_next q1]"
    using qp_iteration_Inr(3,4) [of W xDes q q1] by simp
  obtain n where n: "ls_sleeps (snd (os_loop W offset (os_init start c fs)))
      = [] @ map (\<lambda>i. start + 1000000 * (int i + 1)) [0..<n]"
    using os_loop_deadlines [of W offset "os_init start c fs"] by (auto simp: os_init_def)
  obtain m where m: "ls_sleeps (snd (qp_loop W xDes (qp_init start c')))
      = [] @ map (\<lambda>i. start + 1000000 * (int i + 1)) [0..<m]"
    using qp_loop_deadlines [of W xDes "qp_init start c'"] by (auto simp: qp_init_def)
  from a b deadlines_closed_form [OF n] deadlines_closed_form [OF m] show ?thesis
    by blast
qed

theorem next_deadline_strictly_increasing_witness:
  "(\<exists>s1. os_iteration ex_world [1 / 2, 0, 0] (os_init 5 ex_controller ex_files) = Inr s1
         \<and> ls_next s1 = 1000005 \<and> ls_sleeps s1 = [1000005])
   \<and> (\<exists>q1. qp_iteration ex_world [3 / 2, 0, 0] (qp_init 5 ex_ik_controller) = Inr q1
         \<and> ls_next q1 = 1000005 \<and> ls_sleeps q1 = [1000005])
   \<and> ls_sleeps (snd (os_loop ex_world [1 / 2, 0, 0] (os_init 5 ex_controller ex_files)))
     = [1000005, 2000005]
   \<and> sorted_wrt (<) (5 # ls_sleeps (snd (os_loop ex_world [1 / 2, 0, 0] (os_init 5 ex_controller ex_files))))
   \<and> ls_sleeps (snd (qp_loop ex_world [3 / 2, 0, 0] (qp_init 5 ex_ik_controller)))
     = [1000005, 2000005]
   \<and> sorted_wrt (<) (5 # ls_sleeps (snd (qp_loop ex_world [3 / 2, 0, 0] (qp_init 5 ex_ik_controller))))"
proof -
  obtain s1 where s1: "os_iteration ex_world [1 / 2, 0, 0] (os_init 5 ex_controller ex_files) = Inr s1"
    using ex_world_os_iteration(1) [of "os_init 5 ex_controller ex_files"]
    by (auto simp: os_init_def)
  obtain q1 where q1: "qp_iteration ex_world [3 / 2, 0, 0] (qp_init 5 ex_ik_controller) = Inr q1"
    using ex_world_qp_iteration(1) [of "qp_init 5 ex_ik_controller"]
    by (auto simp: qp_init_def)
  note T = next_deadline_strictly_increasing [of ex_world "[1 / 2, 0, 0]"
      "os_init 5 ex_controller ex_files" s1 "[3 / 2, 0, 0]" "qp_init 5 ex_ik_controller" q1
      5 ex_controller ex_files ex_ik_controller]
  from T s1 have a: "ls_next s1 = 1000005 \<and> ls_sleeps s1 = [1000005]"
    by (simp add: os_init_def)
  from T q1 have b: "ls_next q1 = 1000005 \<and> ls_sleeps q1 = [1000005]"
    by (simp add: qp_init_def)
  have os: "ls_sleeps (snd (os_loop ex_world [1 / 2, 0, 0] (os_init 5 ex_controller ex_files)))
     = [1000005, 2000005]"
    using ex_world_os_loop(3) [of "os_init 5 ex_controller ex_files"] by (simp add: os_init_def)
  have qp: "ls_sleeps (snd (qp_loop ex_world [3 / 2, 0, 0] (qp_init 5 ex_ik_controller)))
     = [1000005, 2000005]"
    using ex_world_qp_loop(3) [of "qp_init 5 ex_ik_controller"] by (simp add: qp_init_def)
  from T s1 q1 a b os qp show ?thesis
    by blast
qed

section \<open>How the loops end\<close>

text \<open>
  C7, as amended. Both loops end, from every state: the loop functions are total, the
  simulated time grows by \<open>1/1000\<close> with every physics step that succeeds, and a run
  from \<open>t = 0\<close> makes at most 20001 such steps in \<open>sim_os.cpp\<close> and 40001 in
  \<open>simulation/id_modelbased.cpp\<close>. A loop ends only because \<open>t\<close> exceeds the horizon,
  because \<open>simulator.step\<close> returned false, or, in \<open>sim_os.cpp\<close> only, because the frame
  position read after the last step is within 0.05 of the offset vector read from the
  configuration; the loop of the inverse-dynamics driver never ends for the third reason.
\<close>

theorem loop_ends_for_a_reason:
  "((fst (os_loop W offset s) = Horizon \<and> 20 < ls_t (snd (os_loop W offset s)))
    \<or> (fst (os_loop W offset s) = EngineStop \<and> ls_t (snd (os_loop W offset s)) \<le> 20
        \<and> \<not> simulator_step W (ls_steps (snd (os_loop W offset s)))
              (nat \<lfloor>ls_t (snd (os_loop W offset s)) / (1 / 1000)\<rfloor>))
    \<or> (fst (os_loop W offset s) = GoalBreak \<and> 0 < ls_steps (snd (os_loop W offset s))
        \<and> vnorm (vsub (framePosition W (ls_steps (snd (os_loop W offset s)) - 1)) (Map3 offset))
            \<le> 5 / 100))
   \<and> ((fst (qp_loop W xDes q) = Horizon \<and> 40 < ls_t (snd (qp_loop W xDes q)))
    \<or> (fst (qp_loop W xDes q) = EngineStop \<and> ls_t (snd (qp_loop W xDes q)) \<le> 40
        \<and> \<not> simulator_step W (ls_steps (snd (qp_loop W xDes q)))
              (nat \<lfloor>ls_t (snd (qp_loop W xDes q)) / (1 / 1000)\<rfloor>)))
   \<and> ls_steps (snd (os_loop W offset (os_init start c fs))) \<le> 20001
   \<and> ls_t (snd (os_loop W offset (os_init start c fs)))
       = real (ls_steps (snd (os_loop W offset (os_init start c fs)))) / 1000
   \<and> ls_steps (snd (qp_loop W xDes (qp_init start c'))) \<le> 40001
   \<and> ls_t (snd (qp_loop W xDes (qp_init start c')))
       = real (ls_steps (snd (qp_loop W xDes (qp_init start c')))) / 1000"
proof -
  have os: "ls_steps (snd (os_loop W offset (os_init start c fs))) \<le> 20001
      \<and> ls_t (snd (os_loop W offset (os_init start c fs)))
          = real (ls_steps (snd (os_loop W offset (os_init start c fs)))) / 1000"
    using os_loop_steps [of "os_init start c fs" W offset] by (simp add: os_init_def)
  have qp: "ls_steps (snd (qp_loop W xDes (qp_init start c'))) \<le> 40001
      \<and> ls_t (snd (qp_loop W xDes (qp_init start c')))
          = real (ls_steps (snd (qp_loop W xDes (qp_init start c')))) / 1000"
    using qp_loop_steps [of "qp_init start c'" W xDes] by (simp add: qp_init_def)
  from os qp os_loop_exit [of W offset s] qp_loop_exit [of W xDes q] show ?thesis
    by blast
qed


lemma os_iteration_ref_trans:
  "os_iteration W offset s = Inl (r, s1) \<or> os_iteration W offset s = Inr s1 \<Longrightarrow>
   se3_trans (osc_ref_pose (os_controller s1)) = se3_trans (osc_ref_pose (os_controller s))"
  by (auto simp: os_iteration_def Let_def action_ref_trans split: if_splits)

lemma ex_world_at_offset_os_iteration:
  "\<exists>s1. os_iteration ex_world_at_offset [1 / 2, 0, 0] s = Inl (GoalBreak, s1)"
  if "ls_steps s < 2"
  using that
  by (simp add: os_iteration_def Let_def ex_world_at_offset_def ex_world_def Map3_def vsub_def
      vnorm_zero3)

lemma hd_trajectories_os:
  "hd (trajectories_os W d offset) = rowwise_add offset (read_csv W (trajectory_file d 1))"
  by (simp add: trajectories_os_def upt_conv_Cons)

lemma hd_trajectories_mb:
  "hd (trajectories_mb W d offset) = rowwise_add offset (read_csv W (trajectory_file d 1))"
  by (simp add: trajectories_mb_def upt_conv_Cons)

lemma ex_world_at_offset_setup:
  "load_offset_os ex_world_at_offset (demo [''sim_os'']) = Inr [1 / 2, 0, 0]"
  "se3_trans (osc_ref_pose (main_os_controller ex_world_at_offset [] [''sim_os''] [1 / 2, 0, 0]))
     = [3 / 2, 0, 0]"
  by (simp_all add: load_offset_os_def demo_def ex_world_at_offset_def ex_world_def ex_config_def
      main_os_controller_def Let_def hd_trajectories_os rowwise_add_def vadd_def Map3_def
      OperationSpaceController_init_def SE3_of_def)

theorem loop_ends_for_a_reason_witness:
  "fst (os_loop ex_world [1 / 2, 0, 0] (os_init 5 ex_controller ex_files)) = EngineStop
   \<and> ls_steps (snd (os_loop ex_world [1 / 2, 0, 0] (os_init 5 ex_controller ex_files))) = 2
   \<and> ls_t (snd (os_loop ex_world [1 / 2, 0, 0] (os_init 5 ex_controller ex_files))) = 2 / 1000
   \<and> \<not> simulator_step ex_world 2 2
   \<and> fst (qp_loop ex_world [3 / 2, 0, 0] (qp_init 5 ex_ik_controller)) = EngineStop
   \<and> ls_t (snd (qp_loop ex_world [3 / 2, 0, 0] (qp_init 5 ex_ik_controller))) = 2 / 1000"
proof -
  note T = loop_ends_for_a_reason [of ex_world "[1 / 2, 0, 0]" "os_init 5 ex_controller ex_files"
      "[3 / 2, 0, 0]" "qp_init 5 ex_ik_controller" 5 ex_controller ex_files ex_ik_controller]
  have os: "fst (os_loop ex_world [1 / 2, 0, 0] (os_init 5 ex_controller ex_files)) = EngineStop"
    "ls_steps (snd (os_loop ex_world [1 / 2, 0, 0] (os_init 5 ex_controller ex_files))) = 2"
    using ex_world_os_loop(1,2) [of "os_init 5 ex_controller ex_files"]
    by (simp_all add: os_init_def)
  have qp: "fst (qp_loop ex_world [3 / 2, 0, 0] (qp_init 5 ex_ik_controller)) = EngineStop"
    "ls_steps (snd (qp_loop ex_world [3 / 2, 0, 0] (qp_init 5 ex_ik_controller))) = 2"
    using ex_world_qp_loop(1,2) [of "qp_init 5 ex_ik_controller"]
    by (simp_all add: qp_init_def)
  from T have t_os: "ls_t (snd (os_loop ex_world [1 / 2, 0, 0] (os_init 5 ex_controller ex_files)))
      = real (ls_steps (snd (os_loop ex_world [1 / 2, 0, 0] (os_init 5 ex_controller ex_files)))) / 1000"
    by blast
  from T have t_qp: "ls_t (snd (qp_loop ex_world [3 / 2, 0, 0] (qp_init 5 ex_ik_controller)))
      = real (ls_steps (snd (qp_loop ex_world [3 / 2, 0, 0] (qp_init 5 ex_ik_controller)))) / 1000"
    by blast
  have stop: "\<not> simulator_step ex_world 2 2"
    by (simp add: ex_world_def)
  from os qp stop t_os t_qp show ?thesis
    by simp
qed

theorem goal_break_counterexample:
  "main_os ex_world_at_offset [] 5 ex_files [''sim_os'']
     = Inr (os_loop ex_world_at_offset [1 / 2, 0, 0]
         (os_init 5 (main_os_controller ex_world_at_offset [] [''sim_os''] [1 / 2, 0, 0]) ex_files))
   \<and> fst (os_loop ex_world_at_offset [1 / 2, 0, 0]
         (os_init 5 (main_os_controller ex_world_at_offset [] [''sim_os''] [1 / 2, 0, 0]) ex_files))
       = GoalBreak
   \<and> ls_t (snd (os_loop ex_world_at_offset [1 / 2, 0, 0]
         (os_init 5 (main_os_controller ex_world_at_offset [] [''sim_os''] [1 / 2, 0, 0]) ex_files)))
       = 1 / 1000
   \<and> simulator_step ex_world_at_offset 0 0
   \<and> se3_trans (osc_ref_pose (os_controller (snd (os_loop ex_world_at_offset [1 / 2, 0, 0]
         (os_init 5 (main_os_controller ex_world_at_offset [] [''sim_os''] [1 / 2, 0, 0]) ex_files)))))
       = [3 / 2, 0, 0]
   \<and> vnorm (vsub (framePosition ex_world_at_offset 0) [3 / 2, 0, 0]) = 1"
proof -
  let ?c = "main_os_controller ex_world_at_offset [] [''sim_os''] [1 / 2, 0, 0]"
  let ?s = "os_init 5 ?c ex_files"
  obtain s1 where it: "os_iteration ex_world_at_offset [1 / 2, 0, 0] ?s = Inl (GoalBreak, s1)"
    using ex_world_at_offset_os_iteration [of ?s] by (auto simp: os_init_def)
  have l: "os_loop ex_world_at_offset [1 / 2, 0, 0] ?s = (GoalBreak, s1)"
    by (rule os_loop_break [OF _ it]) (simp add: os_init_def)
  have t: "ls_t s1 = 1 / 1000"
    using os_iteration_Inl(3) [OF it] by (simp add: os_init_def)
  have r: "se3_trans (osc_ref_pose (os_controller s1)) = [3 / 2, 0, 0]"
    using os_iteration_ref_trans [of ex_world_at_offset "[1 / 2, 0, 0]" ?s GoalBreak s1] it
      ex_world_at_offset_setup(2) by (simp add: os_init_def)
  have m: "main_os ex_world_at_offset [] 5 ex_files [''sim_os'']
     = Inr (os_loop ex_world_at_offset [1 / 2, 0, 0] ?s)"
    by (simp add: main_os_def ex_world_at_offset_setup(1))
  have e: "simulator_step ex_world_at_offset 0 0"
    by (simp add: ex_world_at_offset_def ex_world_def)
  have d: "vnorm (vsub (framePosition ex_world_at_offset 0) [3 / 2, 0, 0]) = 1"
    by (simp add: ex_world_at_offset_def vsub_def vnorm_unit3)
  from m t r e d show ?thesis
    by (simp add: l)
qed

section \<open>The external-mode latch\<close>

text \<open>
  C1. The external flag of the task dynamics is a one-way latch. In \<open>sim_os.cpp\<close> the
  controller is built with the flag false; after any sequence of ticks the flag is set
  exactly when some tick so far found the frame translation within 0.05 of the reference
  translation (so it is set at the first such tick), and a flag that is set stays set.
  At the end of the loop of \<open>sim_os.cpp\<close> it is set exactly when one of the calls of
  \<open>action\<close> made inside the physics steps found the frame within that radius.
  In \<open>simulation/id_modelbased.cpp\<close> the controller is built with the flag false and
  \<open>enter\<close> true; at the end of a run the flag is set exactly when the frame position read
  after one of the physics steps was within 0.01 of \<open>xDes\<close>, and from any state of the
  loop a flag that is set is still set when the loop ends.
\<close>

theorem external_latch:
  "\<not> external (osc_ds (OperationSpaceController_init pos0 rot0 ctr0 uninit ref_pose))
   \<and> external (osc_ds (fst (OperationSpaceController_run W tks
         (OperationSpaceController_init pos0 rot0 ctr0 uninit ref_pose, fs))))
       = (\<exists>tk \<in> set tks. within_os W (se3_trans ref_pose) tk)
   \<and> (external (osc_ds c) \<longrightarrow> external (osc_ds (fst (OperationSpaceController_run W tks (c, fs)))))
   \<and> \<not> external (ik_task (IKController_init W pos0 rot0 config0 tk0 target_pose))
   \<and> external (ik_task (qp_controller (snd (qp_loop W xDes
         (qp_init start (IKController_init W pos0 rot0 config0 tk0 target_pose))))))
       = (\<exists>k < ls_steps (snd (qp_loop W xDes
             (qp_init start (IKController_init W pos0 rot0 config0 tk0 target_pose)))).
            within_qp W xDes k)
   \<and> (external (ik_task (qp_controller q))
        \<longrightarrow> external (ik_task (qp_controller (snd (qp_loop W xDes q)))))
   \<and> external (osc_ds (os_controller (snd (os_loop W offset
         (os_init start (OperationSpaceController_init pos0 rot0 ctr0 uninit ref_pose) fs)))))
       = (\<exists>k < os_calls (os_loop W offset
             (os_init start (OperationSpaceController_init pos0 rot0 ctr0 uninit ref_pose) fs)).
            within_os W (se3_trans ref_pose) (body W k))"
proof -
  let ?c0 = "OperationSpaceController_init pos0 rot0 ctr0 uninit ref_pose"
  let ?k0 = "IKController_init W pos0 rot0 config0 tk0 target_pose"
  have a: "\<not> external (osc_ds ?c0)"
    by (simp add: OperationSpaceController_init_def TaskDynamics_setReference_os_def
        TaskDynamics_os_def external_def)
  have r: "se3_trans (osc_ref_pose ?c0) = se3_trans ref_pose"
    by (simp add: OperationSpaceController_init_def)
  have b: "external (osc_ds (fst (OperationSpaceController_run W tks (?c0, fs))))
       = (\<exists>tk \<in> set tks. within_os W (se3_trans ref_pose) tk)"
    using run_external [of W tks ?c0 fs] a r by simp
  have c: "external (osc_ds c) \<longrightarrow> external (osc_ds (fst (OperationSpaceController_run W tks (c, fs))))"
    using run_external [of W tks c fs] by simp
  have d: "\<not> external (ik_task ?k0)"
    by (simp add: IKController_init_def Let_def external_def update_external
        TaskDynamics_setReference_mb_def TaskDynamics_mb_def)
  have e: "external (ik_task (qp_controller (snd (qp_loop W xDes (qp_init start ?k0)))))
       = (\<exists>k < ls_steps (snd (qp_loop W xDes (qp_init start ?k0))). within_qp W xDes k)"
    using qp_loop_latch [of "qp_init start ?k0" W xDes] d by (simp add: qp_init_def)
  let ?n = "os_calls (os_loop W offset (os_init start ?c0 fs))"
  have "os_controller (snd (os_loop W offset (os_init start ?c0 fs)))
      = fst (OperationSpaceController_run W (map (body W) [0..<?n]) (?c0, fs))"
    using os_loop_run [of W offset "os_init start ?c0 fs"]
    by (simp add: os_init_def prod_eq_iff)
  then have f: "external (osc_ds (os_controller (snd (os_loop W offset (os_init start ?c0 fs)))))
       = (\<exists>k < ?n. within_os W (se3_trans ref_pose) (body W k))"
    using run_external [of W "map (body W) [0..<?n]" ?c0 fs] a r by auto
  from a b c d e f qp_loop_never_cleared [of q W xDes] show ?thesis
    by blast
qed

lemma ex_within_os:
  "within_os ex_world [1, 0, 0] (ex_tick [1, 0, 0, 0, 0, 0, 0])"
  "\<not> within_os ex_world [1, 0, 0] (ex_tick [0, 0, 0, 0, 0, 0, 0])"
  by (simp_all add: within_os_def SE3_framePose_def SE3_of_def ex_world_def ex_tick_def
      vsub_def vnorm_zero3 vnorm_unit3)

theorem external_latch_witness:
  "\<not> external (osc_ds ex_controller)
   \<and> \<not> external (osc_ds (fst (OperationSpaceController_run ex_world
           [ex_tick [0, 0, 0, 0, 0, 0, 0]] (ex_controller, ex_files))))
   \<and> external (osc_ds (fst (OperationSpaceController_run ex_world
           [ex_tick [0, 0, 0, 0, 0, 0, 0], ex_tick [1, 0, 0, 0, 0, 0, 0]]
           (ex_controller, ex_files))))
   \<and> external (osc_ds (fst (OperationSpaceController_run ex_world
           [ex_tick [0, 0, 0, 0, 0, 0, 0], ex_tick [1, 0, 0, 0, 0, 0, 0],
            ex_tick [0, 0, 0, 0, 0, 0, 0]]
           (ex_controller, ex_files))))
   \<and> \<not> external (ik_task ex_ik_controller)
   \<and> within_qp ex_world [3 / 2, 0, 0] 0
   \<and> external (ik_task (qp_controller (snd (qp_loop ex_world [3 / 2, 0, 0]
           (qp_init 5 ex_ik_controller)))))
   \<and> \<not> external (ik_task (qp_controller (snd (qp_loop ex_world [5 / 2, 0, 0]
           (qp_init 5 ex_ik_controller)))))"
proof -
  note T = external_latch [of "zero_gains 3 (R3 [] [])" "zero_gains 3 (SO3_of [] [])"
      "zero_gains 6 (SE3_of [] [] [])" "[]" ex_ref_pose ex_world _ ex_files _
      "zero_gains 7 (R7 [] [])" "ex_tick [0, 0, 0, 0, 0, 0, 0]" ex_ref_pose _ 5,
      folded ex_controller_def ex_ik_controller_def]
  have tr: "se3_trans ex_ref_pose = [1, 0, 0]"
    by (simp add: ex_ref_pose_def)
  have a: "\<not> external (osc_ds ex_controller)" and d: "\<not> external (ik_task ex_ik_controller)"
    using T by blast+
  have b1: "\<not> external (osc_ds (fst (OperationSpaceController_run ex_world
           [ex_tick [0, 0, 0, 0, 0, 0, 0]] (ex_controller, ex_files))))"
    using T [of "[ex_tick [0, 0, 0, 0, 0, 0, 0]]"] ex_within_os by (simp add: tr)
  have b2: "external (osc_ds (fst (OperationSpaceController_run ex_world
           [ex_tick [0, 0, 0, 0, 0, 0, 0], ex_tick [1, 0, 0, 0, 0, 0, 0]]
           (ex_controller, ex_files))))"
    using T [of "[ex_tick [0, 0, 0, 0, 0, 0, 0], ex_tick [1, 0, 0, 0, 0, 0, 0]]"] ex_within_os
    by (simp add: tr)
  have b3: "external (osc_ds (fst (OperationSpaceController_run ex_world
           [ex_tick [0, 0, 0, 0, 0, 0, 0], ex_tick [1, 0, 0, 0, 0, 0, 0],
            ex_tick [0, 0, 0, 0, 0, 0, 0]]
           (ex_controller, ex_files))))"
    using T [of "[ex_tick [0, 0, 0, 0, 0, 0, 0], ex_tick [1, 0, 0, 0, 0, 0, 0],
            ex_tick [0, 0, 0, 0, 0, 0, 0]]"] ex_within_os
    by (simp add: tr)
  have w: "within_qp ex_world [3 / 2, 0, 0] k" "\<not> within_qp ex_world [5 / 2, 0, 0] k" for k
    by (simp_all add: within_qp_def ex_world_def vsub_def vnorm_zero3 vnorm_unit3)
  have n: "ls_steps (snd (qp_loop ex_world xDes (qp_init 5 ex_ik_controller))) = 2" for xDes
    using ex_world_qp_loop(2) [of "qp_init 5 ex_ik_controller"] by (simp add: qp_init_def)
  have e1: "external (ik_task (qp_controller (snd (qp_loop ex_world [3 / 2, 0, 0]
           (qp_init 5 ex_ik_controller)))))"
  proof -
    have "\<exists>k < (2::nat). within_qp ex_world [3 / 2, 0, 0] k"
      using w(1) by (intro exI [of _ 0]) simp
    with T [of _ _ "[3 / 2, 0, 0]"] n show ?thesis
      by simp
  qed
  have e2: "\<not> external (ik_task (qp_controller (snd (qp_loop ex_world [5 / 2, 0, 0]
           (qp_init 5 ex_ik_controller)))))"
    using T [of _ _ "[5 / 2, 0, 0]"] w(2) by auto
  from a b1 b2 b3 d w(1) e1 e2 show ?thesis
    by blast
qed

section \<open>The log of the operation-space demo\<close>

text \<open>
  C9, as amended. The controller that \<open>main\<close> of \<open>sim_os.cpp\<close> builds writes to the file
  \<open>demo_os_0.csv\<close>, whatever the command line selects. A tick entered with the external
  flag set appends exactly one row, the translation of the current frame pose, at the end
  of that file; a tick entered with the flag clear writes nothing, the tick that sets the
  latch included. Over a run from the constructed controller the file grows by the
  positions of the ticks after the first one within the goal radius, in order; rows
  already there stay in place and no other file changes. The same holds for the files at
  the end of the loop of \<open>main\<close>, whose ticks are the calls of \<open>action\<close> made inside
  the physics steps.
\<close>

theorem log_rows:
  "osc_writer (main_os_controller W uninit argv offset) = ''demo_os_0.csv''
   \<and> snd (snd (OperationSpaceController_action W tk (c, fs)))
       = (if external (osc_ds c)
          then fs(osc_writer c := fs (osc_writer c)
                 @ [se3_trans (SE3_framePose W (tk_uninit tk) (tk_state tk))])
          else fs)
   \<and> snd (OperationSpaceController_run W tks (main_os_controller W uninit argv offset, fs))
       = fs(''demo_os_0.csv'' := fs ''demo_os_0.csv''
           @ map (\<lambda>tk. se3_trans (SE3_framePose W (tk_uninit tk) (tk_state tk)))
               (tl (dropWhile
                  (\<lambda>tk. \<not> within_os W
                     (se3_trans (osc_ref_pose (main_os_controller W uninit argv offset))) tk)
                  tks)))
   \<and> os_files (snd (os_loop W offset
         (os_init start (main_os_controller W uninit argv offset) fs)))
       = fs(''demo_os_0.csv'' := fs ''demo_os_0.csv''
           @ map (\<lambda>tk. se3_trans (SE3_framePose W (tk_uninit tk) (tk_state tk)))
               (tl (dropWhile
                  (\<lambda>tk. \<not> within_os W
                     (se3_trans (osc_ref_pose (main_os_controller W uninit argv offset))) tk)
                  (map (body W)
                     [0..<os_calls (os_loop W offset
                        (os_init start (main_os_controller W uninit argv offset) fs))]))))"
proof -
  let ?c = "main_os_controller W uninit argv offset"
  have w: "osc_writer ?c = ''demo_os_0.csv''"
    by (simp add: main_os_controller_def Let_def OperationSpaceController_init_def)
  have e: "\<not> external (osc_ds ?c)"
    by (simp add: main_os_controller_def Let_def OperationSpaceController_init_def
        TaskDynamics_setReference_os_def TaskDynamics_os_def external_def)
  have a: "snd (snd (OperationSpaceController_action W tk (c, fs)))
       = (if external (osc_ds c)
          then fs(osc_writer c := fs (osc_writer c)
                 @ [se3_trans (SE3_framePose W (tk_uninit tk) (tk_state tk))])
          else fs)"
    by (simp add: action_files append_def)
  let ?n = "os_calls (os_loop W offset (os_init start ?c fs))"
  have l: "os_files (snd (os_loop W offset (os_init start ?c fs)))
      = snd (OperationSpaceController_run W (map (body W) [0..<?n]) (?c, fs))"
    using os_loop_run [of W offset "os_init start ?c fs"]
    by (simp add: os_init_def prod_eq_iff)
  from run_files [of W tks ?c fs] run_files [of W "map (body W) [0..<?n]" ?c fs] w e a l
  show ?thesis
    by simp
qed

lemma ex_main_os_controller:
  "se3_trans (osc_ref_pose (main_os_controller ex_world [] argv [1 / 2, 0, 0])) = [3 / 2, 0, 0]"
  by (simp add: ex_world_def main_os_controller_def Let_def hd_trajectories_os rowwise_add_def
      vadd_def Map3_def OperationSpaceController_init_def SE3_of_def)

lemma ex_within_os_main:
  "within_os ex_world [3 / 2, 0, 0] (ex_tick [3 / 2, 0, 0, 0, 0, 0, 0])"
  "\<not> within_os ex_world [3 / 2, 0, 0] (ex_tick [1 / 2, 0, 0, 0, 0, 0, 0])"
  by (simp_all add: within_os_def SE3_framePose_def SE3_of_def ex_world_def ex_tick_def
      vsub_def vnorm_zero3 vnorm_unit3)

lemma ex_tick_position:
  "se3_trans (SE3_framePose ex_world (tk_uninit (ex_tick [a, b, c, d, e, f, g]))
      (tk_state (ex_tick [a, b, c, d, e, f, g]))) = [a, b, c]"
  by (simp add: SE3_framePose_def SE3_of_def ex_world_def ex_tick_def)

theorem log_rows_witness:
  "snd (OperationSpaceController_run ex_world
      [ex_tick [1 / 2, 0, 0, 0, 0, 0, 0], ex_tick [3 / 2, 0, 0, 0, 0, 0, 0],
       ex_tick [3 / 2, 0, 0, 0, 0, 0, 0], ex_tick [1 / 2, 0, 0, 0, 0, 0, 0]]
      (main_os_controller ex_world [] [''sim_os'', ''3''] [1 / 2, 0, 0], ex_files)) ''demo_os_0.csv''
     = [[3 / 2, 0, 0], [1 / 2, 0, 0]]"
  using log_rows [of ex_world "[]" "[''sim_os'', ''3'']" "[1 / 2, 0, 0]" _ _ ex_files
      "[ex_tick [1 / 2, 0, 0, 0, 0, 0, 0], ex_tick [3 / 2, 0, 0, 0, 0, 0, 0],
        ex_tick [3 / 2, 0, 0, 0, 0, 0, 0], ex_tick [1 / 2, 0, 0, 0, 0, 0, 0]]"]
  by (simp add: ex_main_os_controller ex_within_os_main ex_tick_position ex_files_def)

theorem log_file_name_counterexample:
  "demo [''sim_os'', ''1''] = ''demo_1''
   \<and> spec_log_file ''1'' = ''demo_os_1.csv''
   \<and> osc_writer (main_os_controller ex_world [] [''sim_os'', ''1''] [1 / 2, 0, 0]) = ''demo_os_0.csv''
   \<and> osc_writer (main_os_controller ex_world [] [''sim_os'', ''1''] [1 / 2, 0, 0]) \<noteq> spec_log_file ''1''
   \<and> snd (OperationSpaceController_run ex_world
        [ex_tick [3 / 2, 0, 0, 0, 0, 0, 0], ex_tick [3 / 2, 0, 0, 0, 0, 0, 0]]
        (main_os_controller ex_world [] [''sim_os'', ''1''] [1 / 2, 0, 0], ex_files)) ''demo_os_0.csv''
       = [[3 / 2, 0, 0]]
   \<and> snd (OperationSpaceController_run ex_world
        [ex_tick [3 / 2, 0, 0, 0, 0, 0, 0], ex_tick [3 / 2, 0, 0, 0, 0, 0, 0]]
        (main_os_controller ex_world [] [''sim_os'', ''1''] [1 / 2, 0, 0], ex_files)) (spec_log_file ''1'')
       = []"
proof -
  let ?c = "main_os_controller ex_world [] [''sim_os'', ''1''] [1 / 2, 0, 0]"
  have w: "osc_writer ?c = ''demo_os_0.csv''"
    by (simp add: main_os_controller_def Let_def OperationSpaceController_init_def)
  have e: "\<not> external (osc_ds ?c)"
    by (simp add: main_os_controller_def Let_def OperationSpaceController_init_def
        TaskDynamics_setReference_os_def TaskDynamics_os_def external_def)
  have r: "snd (OperationSpaceController_run ex_world
        [ex_tick [3 / 2, 0, 0, 0, 0, 0, 0], ex_tick [3 / 2, 0, 0, 0, 0, 0, 0]] (?c, ex_files))
      = ex_files(''demo_os_0.csv'' := [[3 / 2, 0, 0]])"
    using run_files [of ex_world
        "[ex_tick [3 / 2, 0, 0, 0, 0, 0, 0], ex_tick [3 / 2, 0, 0, 0, 0, 0, 0]]" ?c ex_files] w e
    by (simp add: ex_main_os_controller ex_within_os_main ex_tick_position ex_files_def)
  show ?thesis
    unfolding r by (simp add: w demo_def spec_log_file_def ex_files_def)
qed

lemma action_torque:
  "fst (OperationSpaceController_action W tk (c, fs))
     = mat_vec (transpose (jacobian W (tk_state tk)))
         (vadd (mat_vec (fb_stiffness (osc_ctr c))
                  (vsub (se3_trans (osc_ref_pose c)) (snd (framePose W (tk_state tk)))
                   @ rot_log W (se3_rot (osc_ref_pose c)) (fst (framePose W (tk_state tk)))))
               (mat_vec (fb_damping (osc_ctr c))
                  (vsub (td_u (osc_ds (fst (snd (OperationSpaceController_action W tk (c, fs))))))
                        (mat_vec (jacobian W (tk_state tk)) (tk_velocity tk)))))
   \<and> td_u (osc_ds (fst (snd (OperationSpaceController_action W tk (c, fs)))))
       = td_u (TaskDynamics_update_os (tk_request tk) (tk_uninit tk)
           (if within_os W (se3_trans (osc_ref_pose c)) tk \<and> \<not> external (osc_ds c)
            then setExternal True (osc_ds c) else osc_ds c)
           ((SE3_framePose W (tk_uninit tk) (tk_state tk))
              \<lparr>se3_v := mat_vec (jacobian W (tk_state tk)) (tk_velocity tk)\<rparr>))
   \<and> se3_v (osc_ref_pose (fst (snd (OperationSpaceController_action W tk (c, fs)))))
       = td_u (osc_ds (fst (snd (OperationSpaceController_action W tk (c, fs)))))
   \<and> fb_reference (osc_ctr (fst (snd (OperationSpaceController_action W tk (c, fs)))))
       = osc_ref_pose (fst (snd (OperationSpaceController_action W tk (c, fs))))"
  by (simp add: OperationSpaceController_action_def Let_def Feedback_SE3_def SE3_minus_def
      setReference_def SE3_framePose_def SE3_of_def within_os_def)


section \<open>The torque of the operation-space controller\<close>

text \<open>
  C2. For every joint state sampled at a tick, \<open>action\<close> returns the transposed Jacobian
  applied to the stiffness times the SE(3) error of the reference against the current
  pose (translation difference, then rotation log) plus the damping times the difference
  of the reference twist and the current twist. The Jacobian is the one at the sampled
  joint position, the current twist is the Jacobian times the joint velocity, and the
  reference twist is the output of the task dynamics, updated in the same call at the
  current pose with that twist; the controller keeps it as the twist of its reference.
\<close>

theorem operation_space_torque:
  "fst (OperationSpaceController_action W tk (c, fs))
     = mat_vec (transpose (jacobian W (tk_state tk)))
         (vadd (mat_vec (fb_stiffness (osc_ctr c))
                  (vsub (se3_trans (osc_ref_pose c)) (snd (framePose W (tk_state tk)))
                   @ rot_log W (se3_rot (osc_ref_pose c)) (fst (framePose W (tk_state tk)))))
               (mat_vec (fb_damping (osc_ctr c))
                  (vsub (td_u (osc_ds (fst (snd (OperationSpaceController_action W tk (c, fs))))))
                        (mat_vec (jacobian W (tk_state tk)) (tk_velocity tk)))))
   \<and> td_u (osc_ds (fst (snd (OperationSpaceController_action W tk (c, fs)))))
       = td_u (TaskDynamics_update_os (tk_request tk) (tk_uninit tk)
           (if within_os W (se3_trans (osc_ref_pose c)) tk \<and> \<not> external (osc_ds c)
            then setExternal True (osc_ds c) else osc_ds c)
           ((SE3_framePose W (tk_uninit tk) (tk_state tk))
              \<lparr>se3_v := mat_vec (jacobian W (tk_state tk)) (tk_velocity tk)\<rparr>))
   \<and> se3_v (osc_ref_pose (fst (snd (OperationSpaceController_action W tk (c, fs)))))
       = td_u (osc_ds (fst (snd (OperationSpaceController_action W tk (c, fs)))))
   \<and> fb_reference (osc_ctr (fst (snd (OperationSpaceController_action W tk (c, fs)))))
       = osc_ref_pose (fst (snd (OperationSpaceController_action W tk (c, fs))))"
  by (rule action_torque)

lemma ex_controller_simps:
  "osc_ref_pose ex_controller = ex_ref_pose"
  "td_u (osc_ds ex_controller) = [0, 0, 0, 0, 0, 0]"
  "td_external (osc_ds ex_controller) = False"
  "td_pos (osc_ds ex_controller)
     = \<lparr>fb_stiffness = [[5, 0, 0], [0, 5, 0], [0, 0, 5]],
        fb_damping = [[0, 0, 0], [0, 0, 0], [0, 0, 0]],
        fb_reference = \<lparr>r_x = [1, 0, 0], r_v = []\<rparr>\<rparr>"
  "fb_stiffness (osc_ctr ex_controller) = replicate 6 [0, 0, 0, 0, 0, 0]"
  "fb_damping (osc_ctr ex_controller) = asDiagonal [20, 20, 20, 1, 1, 1]"
  by (simp_all add: ex_controller_def OperationSpaceController_init_def
      TaskDynamics_setReference_os_def TaskDynamics_os_def setReference_def setStiffness_def
      setDamping_def zero_gains_def setZero_def mscale_Identity_3 R3_def ex_ref_pose_def
      replicate_3 replicate_6)

lemma ex_current_pose:
  "SE3_framePose ex_world u q = \<lparr>se3_trans = take 3 q, se3_rot = ref_rot, se3_v = u\<rparr>"
  "framePose ex_world q = (ref_rot, take 3 q)"
  "jacobian ex_world q
     = [[1, 0, 0, 0, 0, 0, 0], [0, 0, 0, 0, 0, 0, 0], [0, 0, 0, 0, 0, 0, 0],
        [0, 0, 0, 0, 0, 0, 0], [0, 0, 0, 0, 0, 0, 0], [0, 0, 0, 0, 0, 0, 0]]"
  "tk_velocity (ex_tick q) = [0, 0, 0, 0, 0, 0, 0]"
  "tk_request (ex_tick q) = ex_request"
  "tk_uninit (ex_tick q) = []"
  "tk_state (ex_tick q) = q"
  "rot_log ex_world a b = [0, 0, 0]"
  by (simp_all add: SE3_framePose_def SE3_of_def ex_world_def ex_tick_def)

lemma ex_within_far:
  "\<not> within_os ex_world (se3_trans (osc_ref_pose ex_controller)) (ex_tick [0, 0, 0, 0, 0, 0, 0])"
  using ex_within_os(2) by (simp add: ex_controller_simps ex_ref_pose_def)

lemma ex_task_output:
  "td_u (osc_ds (fst (snd (OperationSpaceController_action ex_world
       (ex_tick [0, 0, 0, 0, 0, 0, 0]) (ex_controller, ex_files))))) = [5, 0, 0, 0, 0, 0]"
proof -
  have "td_u (osc_ds (fst (snd (OperationSpaceController_action ex_world
       (ex_tick [0, 0, 0, 0, 0, 0, 0]) (ex_controller, ex_files)))))
     = td_u (TaskDynamics_update_os ex_request [] (osc_ds ex_controller)
         \<lparr>se3_trans = [0, 0, 0], se3_rot = ref_rot, se3_v = [0, 0, 0, 0, 0, 0]\<rparr>)"
    using action_torque [of ex_world "ex_tick [0, 0, 0, 0, 0, 0, 0]" ex_controller ex_files]
      ex_within_far
    by (simp add: ex_current_pose mat_vec_def dot_def)
  also have "\<dots> = [5, 0, 0, 0, 0, 0]"
    by (simp add: TaskDynamics_update_os_def Let_def ex_controller_simps Feedback_R_def R3_def
        vsub_def mat_vec_def dot_def vadd_def assign_head_def setZero_tail_def replicate_3
        ex_request_def)
  finally show ?thesis .
qed

lemma ex_torque:
  "fst (OperationSpaceController_action ex_world
       (ex_tick [0, 0, 0, 0, 0, 0, 0]) (ex_controller, ex_files)) = [100, 0, 0, 0, 0, 0, 0]"
proof -
  have j: "mat_vec (jacobian ex_world (tk_state (ex_tick [0, 0, 0, 0, 0, 0, 0])))
      (tk_velocity (ex_tick [0, 0, 0, 0, 0, 0, 0])) = [0, 0, 0, 0, 0, 0]"
    by (simp add: ex_current_pose mat_vec_def dot_def)
  have e: "vsub (se3_trans (osc_ref_pose ex_controller))
        (snd (framePose ex_world (tk_state (ex_tick [0, 0, 0, 0, 0, 0, 0]))))
      @ rot_log ex_world (se3_rot (osc_ref_pose ex_controller))
          (fst (framePose ex_world (tk_state (ex_tick [0, 0, 0, 0, 0, 0, 0]))))
      = [1, 0, 0, 0, 0, 0]"
    by (simp add: ex_controller_simps ex_ref_pose_def ex_current_pose vsub_def)
  have k: "mat_vec (fb_stiffness (osc_ctr ex_controller)) [1, 0, 0, 0, 0, 0] = [0, 0, 0, 0, 0, 0]"
    by (simp add: ex_controller_simps replicate_6 mat_vec_def dot_def)
  have d: "mat_vec (fb_damping (osc_ctr ex_controller)) (vsub [5, 0, 0, 0, 0, 0] [0, 0, 0, 0, 0, 0])
      = [100, 0, 0, 0, 0, 0]"
    by (simp add: ex_controller_simps mat_vec_def dot_def vsub_def)
  have t: "mat_vec (transpose (jacobian ex_world (tk_state (ex_tick [0, 0, 0, 0, 0, 0, 0]))))
      (vadd [0, 0, 0, 0, 0, 0] [100, 0, 0, 0, 0, 0]) = [100, 0, 0, 0, 0, 0, 0]"
    by (simp add: ex_current_pose mat_vec_def dot_def vadd_def)
  show ?thesis
    using action_torque [of ex_world "ex_tick [0, 0, 0, 0, 0, 0, 0]" ex_controller ex_files]
    by (simp only: ex_task_output j e k d t)
qed


theorem operation_space_torque_witness:
  "fst (OperationSpaceController_action ex_world (ex_tick [0, 0, 0, 0, 0, 0, 0])
          (ex_controller, ex_files)) = [100, 0, 0, 0, 0, 0, 0]
   \<and> se3_v (osc_ref_pose (fst (snd (OperationSpaceController_action ex_world
          (ex_tick [0, 0, 0, 0, 0, 0, 0]) (ex_controller, ex_files))))) = [5, 0, 0, 0, 0, 0]"
proof -
  note T = operation_space_torque [of ex_world "ex_tick [0, 0, 0, 0, 0, 0, 0]" ex_controller ex_files]
  from T have "se3_v (osc_ref_pose (fst (snd (OperationSpaceController_action ex_world
          (ex_tick [0, 0, 0, 0, 0, 0, 0]) (ex_controller, ex_files)))))
      = td_u (osc_ds (fst (snd (OperationSpaceController_action ex_world
          (ex_tick [0, 0, 0, 0, 0, 0, 0]) (ex_controller, ex_files)))))"
    by blast
  then show ?thesis
    by (simp add: ex_task_output ex_torque)
qed

section \<open>The torque at zero joint velocity\<close>

lemma mat_vec_zero_vec: "mat_vec J (replicate n 0) = replicate (length J) 0"
proof -
  have "dot row (replicate n 0) = 0" for row
  proof (induction row arbitrary: n)
    case Nil
    then show ?case by (simp add: dot_def)
  next
    case (Cons a row)
    then show ?case by (cases n) (simp_all add: dot_def)
  qed
  then show ?thesis
    by (induction J) (simp_all add: mat_vec_def)
qed

lemma vsub_zero: "length u \<le> n \<Longrightarrow> vsub u (replicate n 0) = u"
proof (induction u arbitrary: n)
  case Nil
  then show ?case by (simp add: vsub_def)
next
  case (Cons a u)
  then show ?case by (cases n) (simp_all add: vsub_def)
qed

lemma length_task_output:
  assumes "length (td_u (osc_ds c)) = 6"
    and "length (tk_request tk (snd (framePose W (tk_state tk)))) = 3"
    and "length (fb_stiffness (td_pos (osc_ds c))) = 3"
    and "length (fb_damping (td_pos (osc_ds c))) = 3"
  shows "length (td_u (osc_ds (fst (snd (OperationSpaceController_action W tk (c, fs)))))) = 6"
proof -
  have pd: "length (Feedback_R (td_pos (osc_ds c)) p) = 3" for p
    using assms(3,4) by (rule length_Feedback_R)
  show ?thesis
    using assms(1,2) pd
    by (simp add: action_torque TaskDynamics_update_os_def Let_def length_update setExternal_def
        SE3_framePose_def SE3_of_def)
qed

text \<open>
  C5, as amended. When the joint velocity is zero (and the vectors have their sizes: a
  Jacobian of six rows, a task output of size six, a reply of three scalars, position
  gains of three rows), the torque is the transposed Jacobian applied to the stiffness
  times the SE(3) error plus the damping times the output of the task dynamics. The twist
  the reference pose carried before the tick does not enter: the controller overwrites it
  with that output, so the damping term is present whenever the output is not zero.
\<close>

theorem torque_at_zero_velocity:
  assumes "tk_velocity tk = replicate 7 0"
    and "length (jacobian W (tk_state tk)) = 6"
    and "length (td_u (osc_ds c)) = 6"
    and "length (tk_request tk (snd (framePose W (tk_state tk)))) = 3"
    and "length (fb_stiffness (td_pos (osc_ds c))) = 3"
    and "length (fb_damping (td_pos (osc_ds c))) = 3"
  shows "fst (OperationSpaceController_action W tk (c, fs))
     = mat_vec (transpose (jacobian W (tk_state tk)))
         (vadd (mat_vec (fb_stiffness (osc_ctr c))
                  (vsub (se3_trans (osc_ref_pose c)) (snd (framePose W (tk_state tk)))
                   @ rot_log W (se3_rot (osc_ref_pose c)) (fst (framePose W (tk_state tk)))))
               (mat_vec (fb_damping (osc_ctr c))
                  (td_u (osc_ds (fst (snd (OperationSpaceController_action W tk (c, fs))))))))"
proof -
  let ?u = "td_u (osc_ds (fst (snd (OperationSpaceController_action W tk (c, fs)))))"
  have u: "length ?u = 6"
    using assms(3-6) by (rule length_task_output)
  have "vsub ?u (mat_vec (jacobian W (tk_state tk)) (tk_velocity tk)) = ?u"
    using u by (simp add: assms(1,2) mat_vec_zero_vec vsub_zero)
  then show ?thesis
    using action_torque [of W tk c fs] by simp
qed

theorem torque_at_zero_velocity_witness:
  "tk_velocity (ex_tick [0, 0, 0, 0, 0, 0, 0]) = replicate 7 0
   \<and> length (jacobian ex_world (tk_state (ex_tick [0, 0, 0, 0, 0, 0, 0]))) = 6
   \<and> length (td_u (osc_ds ex_controller)) = 6
   \<and> length (tk_request (ex_tick [0, 0, 0, 0, 0, 0, 0])
        (snd (framePose ex_world (tk_state (ex_tick [0, 0, 0, 0, 0, 0, 0]))))) = 3
   \<and> length (fb_stiffness (td_pos (osc_ds ex_controller))) = 3
   \<and> length (fb_damping (td_pos (osc_ds ex_controller))) = 3
   \<and> fst (OperationSpaceController_action ex_world (ex_tick [0, 0, 0, 0, 0, 0, 0])
        (ex_controller, ex_files))
       = mat_vec (transpose (jacobian ex_world [0, 0, 0, 0, 0, 0, 0]))
           (vadd [0, 0, 0, 0, 0, 0]
              (mat_vec (asDiagonal [20, 20, 20, 1, 1, 1]) [5, 0, 0, 0, 0, 0]))"
proof -
  have h: "tk_velocity (ex_tick [0, 0, 0, 0, 0, 0, 0]) = replicate 7 0"
    "length (jacobian ex_world (tk_state (ex_tick [0, 0, 0, 0, 0, 0, 0]))) = 6"
    "length (td_u (osc_ds ex_controller)) = 6"
    "length (tk_request (ex_tick [0, 0, 0, 0, 0, 0, 0])
        (snd (framePose ex_world (tk_state (ex_tick [0, 0, 0, 0, 0, 0, 0]))))) = 3"
    "length (fb_stiffness (td_pos (osc_ds ex_controller))) = 3"
    "length (fb_damping (td_pos (osc_ds ex_controller))) = 3"
    by (simp_all add: ex_current_pose ex_controller_simps replicate_7 ex_request_def)
  have r: "mat_vec (transpose (jacobian ex_world [0, 0, 0, 0, 0, 0, 0]))
           (vadd [0, 0, 0, 0, 0, 0]
              (mat_vec (asDiagonal [20, 20, 20, 1, 1, 1]) [5, 0, 0, 0, 0, 0]))
       = [100, 0, 0, 0, 0, 0, 0]"
    by (simp add: ex_current_pose mat_vec_def dot_def vadd_def)
  from torque_at_zero_velocity [OF h, of ex_files]
  have "fst (OperationSpaceController_action ex_world (ex_tick [0, 0, 0, 0, 0, 0, 0])
        (ex_controller, ex_files)) = [100, 0, 0, 0, 0, 0, 0]"
    by (simp add: ex_task_output ex_controller_simps ex_ref_pose_def ex_current_pose
        vsub_def mat_vec_def dot_def vadd_def replicate_6)
  with h r show ?thesis
    by simp
qed

theorem torque_at_zero_velocity_counterexample:
  "tk_velocity (ex_tick [0, 0, 0, 0, 0, 0, 0]) = [0, 0, 0, 0, 0, 0, 0]
   \<and> se3_v (osc_ref_pose ex_controller) = [0, 0, 0, 0, 0, 0]
   \<and> fst (OperationSpaceController_action ex_world (ex_tick [0, 0, 0, 0, 0, 0, 0])
        (ex_controller, ex_files)) = [100, 0, 0, 0, 0, 0, 0]
   \<and> mat_vec (transpose (jacobian ex_world (tk_state (ex_tick [0, 0, 0, 0, 0, 0, 0]))))
        (mat_vec (fb_stiffness (osc_ctr ex_controller))
           (SE3_minus (rot_log ex_world) (osc_ref_pose ex_controller)
              (SE3_framePose ex_world (tk_uninit (ex_tick [0, 0, 0, 0, 0, 0, 0]))
                 (tk_state (ex_tick [0, 0, 0, 0, 0, 0, 0])))))
       = [0, 0, 0, 0, 0, 0, 0]"
proof -
  have a: "tk_velocity (ex_tick [0, 0, 0, 0, 0, 0, 0]) = [0, 0, 0, 0, 0, 0, 0]"
    by (simp add: ex_current_pose)
  have b: "se3_v (osc_ref_pose ex_controller) = [0, 0, 0, 0, 0, 0]"
    by (simp add: ex_controller_simps ex_ref_pose_def)
  have c: "mat_vec (transpose (jacobian ex_world (tk_state (ex_tick [0, 0, 0, 0, 0, 0, 0]))))
        (mat_vec (fb_stiffness (osc_ctr ex_controller))
           (SE3_minus (rot_log ex_world) (osc_ref_pose ex_controller)
              (SE3_framePose ex_world (tk_uninit (ex_tick [0, 0, 0, 0, 0, 0, 0]))
                 (tk_state (ex_tick [0, 0, 0, 0, 0, 0, 0])))))
       = [0, 0, 0, 0, 0, 0, 0]"
    by (simp add: SE3_minus_def ex_controller_simps ex_ref_pose_def ex_current_pose vsub_def
        mat_vec_def dot_def replicate_6)
  from a b c ex_torque show ?thesis
    by blast
qed

section \<open>The torque of the inverse-dynamics controllers\<close>

lemma mat_vec_asDiagonal:
  "length v = length ks \<Longrightarrow> mat_vec (asDiagonal ks) v = map2 (*) ks v"
proof (induction ks arbitrary: v)
  case Nil
  then show ?case by (simp add: mat_vec_def)
next
  case (Cons k ks)
  then obtain x xs where v: "v = x # xs" and l: "length xs = length ks"
    by (cases v) auto
  have z: "dot (replicate n 0) xs = 0" for n
    by (rule dot_zero_row) (simp add: list_all_iff)
  have shift: "mat_vec (map ((#) 0) M) (x # xs) = mat_vec M xs" for M
    by (simp add: mat_vec_def dot_def o_def)
  have first: "dot (k # replicate (length ks) 0) (x # xs) = k * x"
    using z [of "length ks"] by (simp add: dot_def)
  have "mat_vec (asDiagonal (k # ks)) (x # xs)
      = dot (k # replicate (length ks) 0) (x # xs) # mat_vec (map ((#) 0) (asDiagonal ks)) (x # xs)"
    by (simp add: mat_vec_def)
  also have "\<dots> = k * x # mat_vec (asDiagonal ks) xs"
    by (simp only: shift first)
  also have "\<dots> = map2 (*) (k # ks) (x # xs)"
    using Cons.IH [OF l] by simp
  finally show ?case
    by (simp only: v)
qed

lemma segment_nth:
  "i + n \<le> length z \<Longrightarrow> length (segment i n z) = n \<and> (\<forall>j < n. segment i n z ! j = z ! (i + j))"
  by (simp add: segment_def)

text \<open>
  C3. With \<open>nP = 7\<close>, \<open>nC = 7\<close> and \<open>nS = 6\<close> (\<open>simulation/id_modelbased.cpp\<close>) the
  torque returned is \<open>segment(7, 7)\<close> of the solution of the quadratic program: for a
  solution of size \<open>nP + nC + nS\<close> these are its entries \<open>nP\<close> to \<open>nP + nC - 1\<close>, the
  block after the \<open>nP\<close> accelerations. With \<open>nC = 0\<close> (\<open>tmp/id_modelfree.cpp\<close>) the
  first \<open>nP\<close> entries \<open>a\<close> of the solution are integrated to
  \<open>q* = q + dt v + dt dt a / 2\<close> with \<open>dt = 1/100\<close>, and the torque is the diagonal
  feedback \<open>K (q* - q) + D (0 - v)\<close> with the gains of the constructor, plus the gravity
  vector at \<open>q\<close>. The constructor sets these gains and \<open>dt\<close>, and \<open>action\<close> keeps them.
\<close>

theorem inverse_dynamics_torque:
  "fst (IKController_action W tk c)
     = segment nP nC_mb
         (qp_solve W ((R7 (tk_uninit tk) (tk_state tk))\<lparr>r_v := tk_velocity tk\<rparr>)
            (td_u (ik_task (snd (IKController_action W tk c))))
            (Some (nonLinearEffects W (tk_state tk) (tk_velocity tk))))
   \<and> (length z = nP + nC_mb + nS \<longrightarrow>
        length (segment nP nC_mb z) = nC_mb \<and> (\<forall>j < nC_mb. segment nP nC_mb z ! j = z ! (nP + j)))
   \<and> (id_dt d = 1 / 100
        \<and> fb_stiffness (id_ctr d) = asDiagonal [950, 950, 950, 950, 500, 500, 50]
        \<and> fb_damping (id_ctr d) = asDiagonal [10, 10, 10, 10, 10, 10, 1]
        \<and> length (tk_state tk) = nP \<and> length (tk_velocity tk) = nP
        \<and> length (qp_solve W ((R7 (tk_uninit tk) (tk_state tk))\<lparr>r_v := tk_velocity tk\<rparr>)
                    (td_u (id_task (snd (IDController_action W tk d)))) None) = nP + nC_mf + nS
      \<longrightarrow>
        fst (IDController_action W tk d)
          = vadd (vadd (map2 (*) [950, 950, 950, 950, 500, 500, 50]
                          (vsub (vadd (vadd (tk_state tk) (smul (1 / 100) (tk_velocity tk)))
                                      (smul (1 / 2 * (1 / 100) * (1 / 100))
                                         (head nP
                                            (qp_solve W
                                               ((R7 (tk_uninit tk) (tk_state tk))\<lparr>r_v := tk_velocity tk\<rparr>)
                                               (td_u (id_task (snd (IDController_action W tk d))))
                                               None))))
                                (tk_state tk)))
                       (map2 (*) [10, 10, 10, 10, 10, 10, 1]
                          (vsub (replicate nP 0) (tk_velocity tk))))
                 (gravityVector W (tk_state tk)))
   \<and> id_dt (IDController_init W pos0 rot0 config0 ctr0 tk0 target_pose) = 1 / 100
   \<and> fb_stiffness (id_ctr (IDController_init W pos0 rot0 config0 ctr0 tk0 target_pose))
       = asDiagonal [950, 950, 950, 950, 500, 500, 50]
   \<and> fb_damping (id_ctr (IDController_init W pos0 rot0 config0 ctr0 tk0 target_pose))
       = asDiagonal [10, 10, 10, 10, 10, 10, 1]
   \<and> id_dt (snd (IDController_action W tk d)) = id_dt d
   \<and> fb_stiffness (id_ctr (snd (IDController_action W tk d))) = fb_stiffness (id_ctr d)
   \<and> fb_damping (id_ctr (snd (IDController_action W tk d))) = fb_damping (id_ctr d)"
proof -
  have i: "id_dt (IDController_init W pos0 rot0 config0 ctr0 tk0 target_pose) = 1 / 100
      \<and> fb_stiffness (id_ctr (IDController_init W pos0 rot0 config0 ctr0 tk0 target_pose))
          = asDiagonal [950, 950, 950, 950, 500, 500, 50]
      \<and> fb_damping (id_ctr (IDController_init W pos0 rot0 config0 ctr0 tk0 target_pose))
          = asDiagonal [10, 10, 10, 10, 10, 10, 1]"
    by (simp add: IDController_init_def Let_def setDamping_def setStiffness_def)
  have p: "id_dt (snd (IDController_action W tk d)) = id_dt d
      \<and> fb_stiffness (id_ctr (snd (IDController_action W tk d))) = fb_stiffness (id_ctr d)
      \<and> fb_damping (id_ctr (snd (IDController_action W tk d))) = fb_damping (id_ctr d)"
    by (simp add: IDController_action_def Let_def setReference_def)
  have a: "fst (IKController_action W tk c)
     = segment nP nC_mb
         (qp_solve W ((R7 (tk_uninit tk) (tk_state tk))\<lparr>r_v := tk_velocity tk\<rparr>)
            (td_u (ik_task (snd (IKController_action W tk c))))
            (Some (nonLinearEffects W (tk_state tk) (tk_velocity tk))))"
    by (simp add: IKController_action_def Let_def nP_def nC_mb_def R7_def)
  have b: "length z = nP + nC_mb + nS \<longrightarrow>
        length (segment nP nC_mb z) = nC_mb \<and> (\<forall>j < nC_mb. segment nP nC_mb z ! j = z ! (nP + j))"
    using segment_nth [of nP nC_mb z] by (simp add: nP_def nC_mb_def nS_def)
  have c: "fst (IDController_action W tk d)
          = vadd (vadd (map2 (*) [950, 950, 950, 950, 500, 500, 50]
                          (vsub (vadd (vadd (tk_state tk) (smul (1 / 100) (tk_velocity tk)))
                                      (smul (1 / 2 * (1 / 100) * (1 / 100))
                                         (head nP
                                            (qp_solve W
                                               ((R7 (tk_uninit tk) (tk_state tk))\<lparr>r_v := tk_velocity tk\<rparr>)
                                               (td_u (id_task (snd (IDController_action W tk d))))
                                               None))))
                                (tk_state tk)))
                       (map2 (*) [10, 10, 10, 10, 10, 10, 1]
                          (vsub (replicate nP 0) (tk_velocity tk))))
                 (gravityVector W (tk_state tk))"
    if dt: "id_dt d = 1 / 100"
      and K: "fb_stiffness (id_ctr d) = asDiagonal [950, 950, 950, 950, 500, 500, 50]"
      and D: "fb_damping (id_ctr d) = asDiagonal [10, 10, 10, 10, 10, 10, 1]"
      and q: "length (tk_state tk) = nP" and v: "length (tk_velocity tk) = nP"
      and z: "length (qp_solve W ((R7 (tk_uninit tk) (tk_state tk))\<lparr>r_v := tk_velocity tk\<rparr>)
                    (td_u (id_task (snd (IDController_action W tk d)))) None) = nP + nC_mf + nS"
  proof -
    let ?z = "qp_solve W ((R7 (tk_uninit tk) (tk_state tk))\<lparr>r_v := tk_velocity tk\<rparr>)
                    (td_u (id_task (snd (IDController_action W tk d)))) None"
    let ?qs = "vadd (vadd (tk_state tk) (smul (1 / 100) (tk_velocity tk)))
                 (smul (1 / 2 * (1 / 100) * (1 / 100)) (head nP ?z))"
    have lz: "length (head nP ?z) = 7"
      using z by (simp add: head_def nP_def nC_mf_def nS_def)
    have lq: "length (vsub ?qs (tk_state tk)) = length [950, 950, 950, 950, 500, 500, 50 :: real]"
      using q v lz by (simp add: vsub_def vadd_def smul_def nP_def)
    have lv: "length (vsub (replicate nP 0) (tk_velocity tk)) = length [10, 10, 10, 10, 10, 10, 1 :: real]"
      using v by (simp add: vsub_def nP_def)
    have "fst (IDController_action W tk d)
        = vadd (vadd (mat_vec (asDiagonal [950, 950, 950, 950, 500, 500, 50]) (vsub ?qs (tk_state tk)))
                     (mat_vec (asDiagonal [10, 10, 10, 10, 10, 10, 1])
                        (vsub (replicate nP 0) (tk_velocity tk))))
               (gravityVector W (tk_state tk))"
      by (simp add: IDController_action_def Let_def Feedback_R_def setReference_def R7_def
          dt K D setZero_def nP_def head_def segment_def)
    then show ?thesis
      by (simp only: mat_vec_asDiagonal [OF lq] mat_vec_asDiagonal [OF lv])
  qed
  from a b c i p show ?thesis
    by blast
qed

lemma ex_id_controller_simps:
  "id_dt ex_id_controller = 1 / 100"
  "fb_stiffness (id_ctr ex_id_controller) = asDiagonal [950, 950, 950, 950, 500, 500, 50]"
  "fb_damping (id_ctr ex_id_controller) = asDiagonal [10, 10, 10, 10, 10, 10, 1]"
  by (simp_all add: ex_id_controller_def IDController_init_def Let_def setDamping_def
      setStiffness_def)

lemma ex_qp_solve:
  "qp_solve ex_world state u ref
     = [1, 2, 3, 4, 5, 6, 7, 8, 9, 10, 11, 12, 13, 14, 15, 16, 17, 18, 19, 20]"
  "qp_solve ex_world_mf state u ref = [1, 2, 3, 4, 5, 6, 7, 8, 9, 10, 11, 12, 13]"
  "gravityVector ex_world_mf q = [1, 1, 1, 1, 1, 1, 1]"
  by (simp_all add: ex_world_mf_def ex_world_def)

theorem inverse_dynamics_torque_witness:
  "fst (IKController_action ex_world (ex_tick [0, 0, 0, 0, 0, 0, 0]) ex_ik_controller)
     = [8, 9, 10, 11, 12, 13, 14]
   \<and> id_dt ex_id_controller = 1 / 100
   \<and> fb_stiffness (id_ctr ex_id_controller) = asDiagonal [950, 950, 950, 950, 500, 500, 50]
   \<and> fb_damping (id_ctr ex_id_controller) = asDiagonal [10, 10, 10, 10, 10, 10, 1]
   \<and> length (tk_state (ex_tick [0, 0, 0, 0, 0, 0, 0])) = nP
   \<and> length (tk_velocity (ex_tick [0, 0, 0, 0, 0, 0, 0])) = nP
   \<and> fst (IDController_action ex_world_mf (ex_tick [0, 0, 0, 0, 0, 0, 0]) ex_id_controller)
     = [419 / 400, 219 / 200, 457 / 400, 119 / 100, 9 / 8, 23 / 20, 407 / 400]"
proof -
  note T = inverse_dynamics_torque [of ex_world "ex_tick [0, 0, 0, 0, 0, 0, 0]" ex_ik_controller
      "[1, 2, 3, 4, 5, 6, 7, 8, 9, 10, 11, 12, 13, 14, 15, 16, 17, 18, 19, 20]"]
  note T' = inverse_dynamics_torque [of ex_world_mf "ex_tick [0, 0, 0, 0, 0, 0, 0]" _ _
      ex_id_controller]
  have h: "length (tk_state (ex_tick [0, 0, 0, 0, 0, 0, 0])) = nP"
    "length (tk_velocity (ex_tick [0, 0, 0, 0, 0, 0, 0])) = nP"
    by (simp_all add: ex_current_pose nP_def)
  have z: "length (qp_solve ex_world_mf
        ((R7 (tk_uninit (ex_tick [0, 0, 0, 0, 0, 0, 0])) (tk_state (ex_tick [0, 0, 0, 0, 0, 0, 0])))
           \<lparr>r_v := tk_velocity (ex_tick [0, 0, 0, 0, 0, 0, 0])\<rparr>)
        (td_u (id_task (snd (IDController_action ex_world_mf (ex_tick [0, 0, 0, 0, 0, 0, 0])
           ex_id_controller)))) None) = nP + nC_mf + nS"
    by (simp add: ex_qp_solve nP_def nC_mf_def nS_def)
  from T have "fst (IKController_action ex_world (ex_tick [0, 0, 0, 0, 0, 0, 0]) ex_ik_controller)
     = segment nP nC_mb [1, 2, 3, 4, 5, 6, 7, 8, 9, 10, 11, 12, 13, 14, 15, 16, 17, 18, 19, 20]"
    by (simp add: ex_qp_solve)
  then have ik: "fst (IKController_action ex_world (ex_tick [0, 0, 0, 0, 0, 0, 0]) ex_ik_controller)
     = [8, 9, 10, 11, 12, 13, 14]"
    by (simp add: segment_def nP_def nC_mb_def)
  from T' ex_id_controller_simps h z
  have "fst (IDController_action ex_world_mf (ex_tick [0, 0, 0, 0, 0, 0, 0]) ex_id_controller)
     = vadd (vadd (map2 (*) [950, 950, 950, 950, 500, 500, 50]
                          (vsub (vadd (vadd (tk_state (ex_tick [0, 0, 0, 0, 0, 0, 0]))
                                         (smul (1 / 100) (tk_velocity (ex_tick [0, 0, 0, 0, 0, 0, 0]))))
                                      (smul (1 / 2 * (1 / 100) * (1 / 100))
                                         (head nP
                                            (qp_solve ex_world_mf
                                               ((R7 (tk_uninit (ex_tick [0, 0, 0, 0, 0, 0, 0]))
                                                   (tk_state (ex_tick [0, 0, 0, 0, 0, 0, 0])))
                                                  \<lparr>r_v := tk_velocity (ex_tick [0, 0, 0, 0, 0, 0, 0])\<rparr>)
                                               (td_u (id_task (snd (IDController_action ex_world_mf
                                                  (ex_tick [0, 0, 0, 0, 0, 0, 0]) ex_id_controller))))
                                               None))))
                                (tk_state (ex_tick [0, 0, 0, 0, 0, 0, 0]))))
                       (map2 (*) [10, 10, 10, 10, 10, 10, 1]
                          (vsub (replicate nP 0) (tk_velocity (ex_tick [0, 0, 0, 0, 0, 0, 0])))))
                 (gravityVector ex_world_mf (tk_state (ex_tick [0, 0, 0, 0, 0, 0, 0])))"
    by blast
  then have idc: "fst (IDController_action ex_world_mf (ex_tick [0, 0, 0, 0, 0, 0, 0]) ex_id_controller)
     = [419 / 400, 219 / 200, 457 / 400, 119 / 100, 9 / 8, 23 / 20, 407 / 400]"
    by (simp add: ex_qp_solve ex_current_pose head_def nP_def replicate_7 vadd_def vsub_def smul_def)
  from ik idc ex_id_controller_simps h show ?thesis
    by blast
qed

section \<open>The offset of the trajectories\<close>

text \<open>
  C8. The two inverse-dynamics drivers read the offset at \<open>dynamics.offset\<close>; the
  operation-space driver reads the key \<open>offset\<close> at the top of the same file. On a
  configuration that has the offset under \<open>dynamics\<close> only, the inverse-dynamics drivers
  get the vector and translate every row of every trajectory they load by it, while the
  set-up of the operation-space driver ends with the conversion error.
\<close>

theorem offset_key:
  "load_offset_mb ex_world_dynamics_only (demo [''id_modelbased'']) = Inr [1 / 2, 0, 0]
   \<and> load_offset_mf ex_world_dynamics_only (demo [''id_modelfree'']) = Inr [1 / 2, 0, 0]
   \<and> trajectories_mb ex_world_dynamics_only (demo [''id_modelbased'']) [1 / 2, 0, 0]
       = [[[3 / 2, 0, 0], [1 / 2, 0, 0]]]
   \<and> load_offset_os ex_world_dynamics_only (demo [''sim_os'']) = Inl BadConversion
   \<and> main_os ex_world_dynamics_only [] 5 ex_files [''sim_os''] = Inl BadConversion"
  by (simp add: load_offset_mb_def load_offset_mf_def load_offset_os_def main_os_def demo_def
      ex_world_dynamics_only_def ex_world_def ex_config_dynamics_only_def trajectories_mb_def
      rowwise_add_def vadd_def Map3_def upt_conv_Cons)

end
